theory Spec2Isabelle
  imports Main "HOL-Library.Sublist"
begin

section \<open>Overview\<close>

text \<open>
  A model of \<^verbatim>\<open>map_converter.py\<close>: the function \<^verbatim>\<open>convert_simulation_data\<close>, which reads
  a manifest, the node and link files it names, and writes one graph document, and the
  command line code that calls it.

  \<^item> Values are the ones \<^verbatim>\<open>json.load\<close> returns. An exception is a value of type
    \<open>pyexn\<close>; a computation that may raise has a result of type \<open>pyexn + 'a\<close>, and each
    \<^verbatim>\<open>try\<close> of the source is a case distinction on such a result.
  \<^item> The seven lists that the function fills are the fields of the record \<open>run_state\<close>,
    passed from one iteration to the next.
  \<^item> The file system is a parameter: what opening and decoding a path gives, whether a
    path exists, and whether the output directory and file can be made. What the run
    does to it is returned as a value of type \<open>effects\<close>.
  \<^item> A \<^verbatim>\<open>print\<close> raises \<^verbatim>\<open>UnicodeEncodeError\<close> when the standard output cannot encode
    the text of a value that the line interpolates; which values it can encode is a
    parameter too. Constant text and the text of an exception can always be encoded,
    and a value that was printed once can be printed again: the prints of lines 30, 33,
    36, 40 and 171-199, which interpolate nothing else, are left out. The output path
    is taken to be encodable, which covers the prints of lines 207-216.
  \<^item> The messages kept in the three error lists are structured values: the values
    that the source formats into each string.
\<close>

section \<open>Python values read from JSON\<close>

text \<open>
  \<^verbatim>\<open>None\<close>, booleans, integers, floats, strings, lists and dictionaries with string keys.
  The type \<open>'f\<close> stands for Python's \<^verbatim>\<open>float\<close>; the three operations of the interpreter
  on floats that the program relies on are collected in the record \<open>pyfloat\<close>. A
  dictionary is kept as the list of its items, each key once, and read with \<open>map_of\<close>.
\<close>

datatype 'f json =
    JNull
  | JBool bool
  | JInt int
  | JFloat 'f
  | JStr string
  | JList "'f json list"
  | JObj "(string \<times> 'f json) list"

text \<open>
  The exceptions that the operations used by the program can raise. In Python
  \<^verbatim>\<open>UnicodeEncodeError\<close> is a subclass of \<^verbatim>\<open>ValueError\<close>: \<open>is_ValueError\<close> is the test
  that \<^verbatim>\<open>except ValueError\<close> makes.
\<close>

datatype pyexn =
  KeyError string | TypeError | AttributeError | ValueError | OverflowError | UnicodeEncodeError

definition is_ValueError :: "pyexn \<Rightarrow> bool" where
  "is_ValueError e = (e = ValueError \<or> e = UnicodeEncodeError)"

text \<open>
  \<open>float_of_int i\<close> is \<^verbatim>\<open>float(i)\<close> for an integer (\<open>None\<close>: \<^verbatim>\<open>OverflowError\<close>),
  \<open>float_of_str s\<close> is \<^verbatim>\<open>float(s)\<close> for a string (\<open>None\<close>: \<^verbatim>\<open>ValueError\<close>), and
  \<open>float_nonzero x\<close> is the truth value of the float \<open>x\<close>.
\<close>

record 'f pyfloat =
  float_of_int :: "int \<Rightarrow> 'f option"
  float_of_str :: "string \<Rightarrow> 'f option"
  float_nonzero :: "'f \<Rightarrow> bool"

text \<open>Truth value testing, as \<^verbatim>\<open>not x\<close>, \<^verbatim>\<open>x or y\<close> and \<^verbatim>\<open>x and y\<close> apply it.\<close>

fun truthy :: "'f pyfloat \<Rightarrow> 'f json \<Rightarrow> bool" where
  "truthy py JNull = False"
| "truthy py (JBool b) = b"
| "truthy py (JInt i) = (i \<noteq> 0)"
| "truthy py (JFloat x) = float_nonzero py x"
| "truthy py (JStr s) = (s \<noteq> [])"
| "truthy py (JList xs) = (xs \<noteq> [])"
| "truthy py (JObj kvs) = (kvs \<noteq> [])"

text \<open>Sequencing of computations that may raise: the first exception wins.\<close>

definition bind_exn :: "pyexn + 'a \<Rightarrow> ('a \<Rightarrow> pyexn + 'b) \<Rightarrow> pyexn + 'b" where
  "bind_exn m k = (case m of Inl e \<Rightarrow> Inl e | Inr x \<Rightarrow> k x)"

text \<open>
  \<^verbatim>\<open>v[k]\<close> with a string key: \<^verbatim>\<open>KeyError\<close> on a dictionary without the key,
  \<^verbatim>\<open>TypeError\<close> on every other value.
\<close>

definition py_index :: "'f json \<Rightarrow> string \<Rightarrow> pyexn + 'f json" where
  "py_index v k =
     (case v of
        JObj kvs \<Rightarrow> (case map_of kvs k of None \<Rightarrow> Inl (KeyError k) | Some x \<Rightarrow> Inr x)
      | _ \<Rightarrow> Inl TypeError)"

text \<open>\<^verbatim>\<open>v.get(k, d)\<close>: only a dictionary has the method.\<close>

definition py_get :: "'f json \<Rightarrow> string \<Rightarrow> 'f json \<Rightarrow> pyexn + 'f json" where
  "py_get v k d =
     (case v of
        JObj kvs \<Rightarrow> Inr (case map_of kvs k of None \<Rightarrow> d | Some x \<Rightarrow> x)
      | _ \<Rightarrow> Inl AttributeError)"

text \<open>\<^verbatim>\<open>v[k1][k2]...\<close> and \<^verbatim>\<open>v.get(k1, d1).get(k2, d2)...\<close>, evaluated left to right.\<close>

fun index_path :: "'f json \<Rightarrow> string list \<Rightarrow> pyexn + 'f json" where
  "index_path v [] = Inr v"
| "index_path v (k # ks) = bind_exn (py_index v k) (\<lambda>x. index_path x ks)"

fun get_path :: "'f json \<Rightarrow> (string \<times> 'f json) list \<Rightarrow> pyexn + 'f json" where
  "get_path v [] = Inr v"
| "get_path v ((k, d) # ks) = bind_exn (py_get v k d) (\<lambda>x. get_path x ks)"

text \<open>\<^verbatim>\<open>needle in s\<close> for two strings: substring search.\<close>

fun str_contains :: "string \<Rightarrow> string \<Rightarrow> bool" where
  "str_contains needle [] = (needle = [])"
| "str_contains needle (c # cs) = (prefix needle (c # cs) \<or> str_contains needle cs)"

text \<open>
  \<^verbatim>\<open>needle in v\<close> for a string \<open>needle\<close>: a substring test on a string, membership in a
  list, key membership in a dictionary, \<^verbatim>\<open>TypeError\<close> on a value that is not iterable.
\<close>

definition py_in :: "string \<Rightarrow> 'f json \<Rightarrow> pyexn + bool" where
  "py_in needle v =
     (case v of
        JStr s \<Rightarrow> Inr (str_contains needle s)
      | JList xs \<Rightarrow> Inr (JStr needle \<in> set xs)
      | JObj kvs \<Rightarrow> Inr (needle \<in> set (map fst kvs))
      | _ \<Rightarrow> Inl TypeError)"

text \<open>
  The elements a \<^verbatim>\<open>for\<close> loop visits: the items of a list, the keys of a dictionary, the
  characters of a string; the other values are not iterable.
\<close>

definition py_iter :: "'f json \<Rightarrow> pyexn + 'f json list" where
  "py_iter v =
     (case v of
        JList xs \<Rightarrow> Inr xs
      | JObj kvs \<Rightarrow> Inr (map (\<lambda>kv. JStr (fst kv)) kvs)
      | JStr s \<Rightarrow> Inr (map (\<lambda>c. JStr [c]) s)
      | _ \<Rightarrow> Inl TypeError)"

text \<open>\<^verbatim>\<open>float(v)\<close>.\<close>

definition py_float :: "'f pyfloat \<Rightarrow> 'f json \<Rightarrow> pyexn + 'f" where
  "py_float py v =
     (case v of
        JFloat x \<Rightarrow> Inr x
      | JInt i \<Rightarrow> (case float_of_int py i of None \<Rightarrow> Inl OverflowError | Some x \<Rightarrow> Inr x)
      | JBool b \<Rightarrow>
          (case float_of_int py (if b then 1 else 0) of
             None \<Rightarrow> Inl OverflowError | Some x \<Rightarrow> Inr x)
      | JStr s \<Rightarrow> (case float_of_str py s of None \<Rightarrow> Inl ValueError | Some x \<Rightarrow> Inr x)
      | _ \<Rightarrow> Inl TypeError)"

section \<open>Path mapping (lines 55-64)\<close>

text \<open>
  \<^verbatim>\<open>s.replace(old, new, 1)\<close>: the leftmost occurrence of \<open>old\<close> in \<open>s\<close> is replaced,
  and \<open>s\<close> is returned as it is when there is none.
\<close>

fun replace_first :: "string \<Rightarrow> string \<Rightarrow> string \<Rightarrow> string" where
  "replace_first old new [] = (if old = [] then new else [])"
| "replace_first old new (c # cs) =
     (if prefix old (c # cs) then new @ drop (length old) (c # cs)
      else c # replace_first old new cs)"

text \<open>
  An optional string argument counts as given when it is neither \<^verbatim>\<open>None\<close> nor empty:
  that is the test \<^verbatim>\<open>docker_path_prefix and host_path_prefix\<close> of line 56 and the
  test of the command line validation of line 252.
\<close>

definition supplied :: "string option \<Rightarrow> bool" where
  "supplied p = (case p of None \<Rightarrow> False | Some s \<Rightarrow> s \<noteq> [])"

text \<open>
  Lines 55-64. With both prefixes given, \<^verbatim>\<open>original_file_path.startswith\<close> is called,
  which only a string has.
\<close>

definition map_path :: "string option \<Rightarrow> string option \<Rightarrow> 'f json \<Rightarrow> pyexn + 'f json" where
  "map_path docker_path_prefix host_path_prefix original_file_path =
     (case (docker_path_prefix, host_path_prefix) of
        (Some d, Some h) \<Rightarrow>
          (if d \<noteq> [] \<and> h \<noteq> [] then
             (case original_file_path of
                JStr p \<Rightarrow> Inr (JStr (if prefix d p then replace_first d h p else p))
              | _ \<Rightarrow> Inl AttributeError)
           else Inr original_file_path)
      | _ \<Rightarrow> Inr original_file_path)"

section \<open>The output document and the run state\<close>

record 'f vertex =
  vertex_id :: "'f json"
  vertex_classType :: "'f json"
  vertex_resourceId :: "'f json"
  latitude :: "'f json"
  longitude :: "'f json"

record 'f edge_label =
  label_id :: "'f json"
  label_resourceId :: "'f json"
  label_classType :: "'f json"
  label_length :: 'f

record 'f edge =
  source_id :: "'f json"
  target_id :: "'f json"
  weight :: 'f
  label :: "'f edge_label"

record 'f gps_map =
  nodes :: "'f vertex list"
  edges :: "'f edge list"
  directed :: bool

text \<open>
  The entries of the three error lists are formatted strings in the source. The model
  keeps the values that are formatted into each message instead of the text: the key
  of the \<^verbatim>\<open>KeyError\<close>, the record's \<^verbatim>\<open>id\<close> (or \<^verbatim>\<open>'unknown ID'\<close>), the paths, the
  rejected \<^verbatim>\<open>length\<close>.
\<close>

datatype 'f message =
    NodeKeyError string "'f json" "'f json"
  | LinkKeyError string "'f json" "'f json"
  | LinkValueError "'f json" "'f json" "'f json"
  | NodeFileNotFound "'f json" "'f json"
  | LinkFileNotFound "'f json" "'f json"
  | NodeJsonError "'f json"
  | LinkJsonError "'f json"

text \<open>The seven lists of lines 17-23.\<close>

record 'f run_state =
  all_vertices :: "'f vertex list"
  all_edges :: "'f edge list"
  node_files_processed :: "'f json list"
  link_files_processed :: "'f json list"
  files_not_found :: "'f message list"
  json_errors :: "'f message list"
  key_errors :: "'f message list"

definition initial_state :: "'f run_state" where
  "initial_state =
     \<lparr>all_vertices = [], all_edges = [], node_files_processed = [],
      link_files_processed = [], files_not_found = [], json_errors = [], key_errors = []\<rparr>"

section \<open>The file system and the standard output\<close>

text \<open>
  What \<^verbatim>\<open>open(path, 'r')\<close> followed by \<^verbatim>\<open>json.load\<close> gives: the decoded value, or
  one of the three classes of exception that the handlers tell apart.
\<close>

datatype 'f read_result = Loaded "'f json" | FileNotFoundError | JSONDecodeError | OtherError

text \<open>
  \<open>load_json\<close> takes the value handed to \<^verbatim>\<open>open\<close>; \<open>exists\<close> is \<^verbatim>\<open>os.path.exists\<close>;
  for an output path \<open>p\<close>, \<open>dir_missing p\<close> is the test of line 205, \<open>makedirs_ok p\<close>
  says that \<^verbatim>\<open>os.makedirs\<close> returns, and \<open>write_ok p\<close> that \<^verbatim>\<open>open(p, 'w')\<close>
  and \<^verbatim>\<open>json.dump\<close> return. \<open>printable v\<close> says that the standard output can encode
  the text of the value \<open>v\<close>.
\<close>

record 'f filesystem =
  load_json :: "'f json \<Rightarrow> 'f read_result"
  exists :: "string \<Rightarrow> bool"
  dir_missing :: "string \<Rightarrow> bool"
  makedirs_ok :: "string \<Rightarrow> bool"
  write_ok :: "string \<Rightarrow> bool"
  printable :: "'f json \<Rightarrow> bool"

text \<open>A \<^verbatim>\<open>print\<close> of a line that interpolates the given values.\<close>

definition py_print :: "'f filesystem \<Rightarrow> 'f json list \<Rightarrow> pyexn + unit" where
  "py_print fs vs = (if list_all (printable fs) vs then Inr () else Inl UnicodeEncodeError)"

section \<open>Node records (lines 77-92)\<close>

definition make_vertex :: "'f json \<Rightarrow> 'f json \<Rightarrow> pyexn + 'f vertex" where
  "make_vertex resource_id node =
     bind_exn (py_index node ''id'') (\<lambda>i.
     bind_exn (py_index node ''typeActor'') (\<lambda>t.
     bind_exn (index_path node [''data'', ''content'', ''latitude'']) (\<lambda>la.
     bind_exn (index_path node [''data'', ''content'', ''longitude'']) (\<lambda>lo.
       Inr \<lparr>vertex_id = i, vertex_classType = t, vertex_resourceId = resource_id,
            latitude = la, longitude = lo\<rparr>))))"

text \<open>
  One iteration of the loop of line 77. The handler of line 87 prints the message
  (line 89) before it records it (line 90), and the handler of line 91 prints the
  record; an exception raised inside a handler leaves the loop (\<open>Inl\<close>), with the
  lists as they were before the record.
\<close>

definition process_node ::
  "'f filesystem \<Rightarrow> 'f json \<Rightarrow> 'f json \<Rightarrow> 'f run_state \<Rightarrow> 'f json
     \<Rightarrow> pyexn + 'f run_state" where
  "process_node fs file_path resource_id st node =
     (case make_vertex resource_id node of
        Inr vertex \<Rightarrow> Inr (st\<lparr>all_vertices := all_vertices st @ [vertex]\<rparr>)
      | Inl (KeyError k) \<Rightarrow>
          bind_exn (py_get node ''id'' (JStr ''unknown ID'')) (\<lambda>i.
          bind_exn (py_print fs [i, file_path]) (\<lambda>u.
            Inr (st\<lparr>key_errors := key_errors st @ [NodeKeyError k i file_path]\<rparr>)))
      | Inl _ \<Rightarrow> bind_exn (py_print fs [file_path, node]) (\<lambda>u. Inr st))"

text \<open>
  The loop: the lists when it ends, and the exception that left it, if one did.
\<close>

fun node_loop ::
  "'f filesystem \<Rightarrow> 'f json \<Rightarrow> 'f json \<Rightarrow> 'f run_state \<Rightarrow> 'f json list
     \<Rightarrow> 'f run_state \<times> pyexn option" where
  "node_loop fs file_path resource_id st [] = (st, None)"
| "node_loop fs file_path resource_id st (node # rest) =
     (case process_node fs file_path resource_id st node of
        Inl e \<Rightarrow> (st, Some e)
      | Inr st' \<Rightarrow> node_loop fs file_path resource_id st' rest)"

text \<open>
  Lines 69-103. An exception that leaves the loop, and a failure of the print of line
  74, reach the handler of line 102, which prints the path and the exception. The
  handlers of lines 94 and 98 print before they record. A print that fails inside a
  handler leaves the function.
\<close>

definition process_node_file ::
  "'f filesystem \<Rightarrow> 'f json \<Rightarrow> 'f json \<Rightarrow> 'f json \<Rightarrow> 'f run_state
     \<Rightarrow> pyexn + 'f run_state" where
  "process_node_file fs file_path original_file_path resource_id st =
     (let st1 = st\<lparr>node_files_processed := node_files_processed st @ [original_file_path]\<rparr>
      in case load_json fs file_path of
           Loaded nodes_data \<Rightarrow>
             (case nodes_data of
                JList ns \<Rightarrow>
                  (case node_loop fs file_path resource_id st1 ns of
                     (st2, None) \<Rightarrow> Inr st2
                   | (st2, Some e) \<Rightarrow> bind_exn (py_print fs [file_path]) (\<lambda>u. Inr st2))
              | _ \<Rightarrow> bind_exn (py_print fs [file_path]) (\<lambda>u. Inr st1))
         | FileNotFoundError \<Rightarrow>
             bind_exn (py_print fs [file_path, original_file_path]) (\<lambda>u.
               Inr (st1\<lparr>files_not_found :=
                     files_not_found st1 @ [NodeFileNotFound file_path original_file_path]\<rparr>))
         | JSONDecodeError \<Rightarrow>
             bind_exn (py_print fs [file_path]) (\<lambda>u.
               Inr (st1\<lparr>json_errors := json_errors st1 @ [NodeJsonError file_path]\<rparr>))
         | OtherError \<Rightarrow> bind_exn (py_print fs [file_path]) (\<lambda>u. Inr st1))"

section \<open>Link records (lines 116-153)\<close>

text \<open>Lines 120-123: the value at \<^verbatim>\<open>data.content\<close>, or else the one under \<^verbatim>\<open>dependencies\<close>.\<close>

definition resolve_endpoint :: "'f pyfloat \<Rightarrow> 'f json \<Rightarrow> string \<Rightarrow> pyexn + 'f json" where
  "resolve_endpoint py link key =
     bind_exn (get_path link [(''data'', JObj []), (''content'', JObj []), (key, JNull)])
       (\<lambda>primary.
          if truthy py primary then Inr primary
          else get_path link [(''dependencies'', JObj []), (key, JObj []), (''id'', JNull)])"

text \<open>Lines 120-125: the four values read from the record, in the order of the source.\<close>

definition link_fields ::
  "'f pyfloat \<Rightarrow> 'f json \<Rightarrow> pyexn + ('f json \<times> 'f json \<times> 'f json \<times> 'f json)" where
  "link_fields py link =
     bind_exn (resolve_endpoint py link ''from_node'') (\<lambda>source_node_id.
     bind_exn (resolve_endpoint py link ''to_node'') (\<lambda>target_node_id.
     bind_exn (py_index link ''id'') (\<lambda>link_id.
     bind_exn (index_path link [''data'', ''content'', ''length'']) (\<lambda>length_str.
       Inr (source_node_id, target_node_id, link_id, length_str)))))"

text \<open>Lines 132-142.\<close>

definition make_edge ::
  "'f json \<Rightarrow> 'f json \<Rightarrow> 'f json \<Rightarrow> 'f json \<Rightarrow> 'f json \<Rightarrow> 'f \<Rightarrow> 'f edge" where
  "make_edge resource_id class_type source_node_id target_node_id link_id length_float =
     \<lparr>source_id = source_node_id, target_id = target_node_id, weight = length_float,
      label = \<lparr>label_id = link_id, label_resourceId = resource_id,
               label_classType = class_type, label_length = length_float\<rparr>\<rparr>"

text \<open>
  Lines 126-143, once the four values are read: the conversion of the length, the
  test of the endpoints with its print (line 129), and the new edge.
\<close>

definition add_edge ::
  "'f filesystem \<Rightarrow> 'f pyfloat \<Rightarrow> 'f json \<Rightarrow> 'f json \<Rightarrow> 'f json \<Rightarrow> 'f run_state
     \<Rightarrow> 'f json \<Rightarrow> 'f json \<Rightarrow> 'f json \<Rightarrow> 'f json \<Rightarrow> pyexn + 'f run_state" where
  "add_edge fs py file_path resource_id class_type st source_node_id target_node_id link_id
       length_str =
     bind_exn (py_float py length_str) (\<lambda>length_float.
       if \<not> truthy py source_node_id \<or> \<not> truthy py target_node_id then
         bind_exn (py_print fs [link_id, file_path]) (\<lambda>u. Inr st)
       else
         Inr (st\<lparr>all_edges := all_edges st @
                [make_edge resource_id class_type source_node_id target_node_id
                   link_id length_float]\<rparr>))"

text \<open>
  One iteration of the loop of line 116. Reading the four values raises no
  \<^verbatim>\<open>ValueError\<close>; after them, \<^verbatim>\<open>float\<close> and the print of line 129 raise no
  \<^verbatim>\<open>KeyError\<close>. The handlers of lines 144 and 148 print before they record, and
  the one of line 152 prints the record.
\<close>

definition process_link ::
  "'f filesystem \<Rightarrow> 'f pyfloat \<Rightarrow> 'f json \<Rightarrow> 'f json \<Rightarrow> 'f json \<Rightarrow> 'f run_state \<Rightarrow> 'f json
     \<Rightarrow> pyexn + 'f run_state" where
  "process_link fs py file_path resource_id class_type st link =
     (case link_fields py link of
        Inl (KeyError k) \<Rightarrow>
          bind_exn (py_get link ''id'' (JStr ''unknown ID'')) (\<lambda>i.
          bind_exn (py_print fs [i, file_path]) (\<lambda>u.
            Inr (st\<lparr>key_errors := key_errors st @ [LinkKeyError k i file_path]\<rparr>)))
      | Inl _ \<Rightarrow> bind_exn (py_print fs [file_path, link]) (\<lambda>u. Inr st)
      | Inr (source_node_id, target_node_id, link_id, length_str) \<Rightarrow>
          (case add_edge fs py file_path resource_id class_type st source_node_id
                  target_node_id link_id length_str of
             Inr st' \<Rightarrow> Inr st'
           | Inl e \<Rightarrow>
               if is_ValueError e then
                 bind_exn (py_get link ''id'' (JStr ''unknown ID'')) (\<lambda>i.
                 bind_exn (py_print fs [i, file_path, length_str]) (\<lambda>u.
                   Inr (st\<lparr>key_errors :=
                             key_errors st @ [LinkValueError i file_path length_str]\<rparr>)))
               else bind_exn (py_print fs [file_path, link]) (\<lambda>u. Inr st)))"

fun link_loop ::
  "'f filesystem \<Rightarrow> 'f pyfloat \<Rightarrow> 'f json \<Rightarrow> 'f json \<Rightarrow> 'f json \<Rightarrow> 'f run_state
     \<Rightarrow> 'f json list \<Rightarrow> 'f run_state \<times> pyexn option" where
  "link_loop fs py file_path resource_id class_type st [] = (st, None)"
| "link_loop fs py file_path resource_id class_type st (link # rest) =
     (case process_link fs py file_path resource_id class_type st link of
        Inl e \<Rightarrow> (st, Some e)
      | Inr st' \<Rightarrow> link_loop fs py file_path resource_id class_type st' rest)"

text \<open>Lines 108-164, as for a node file.\<close>

definition process_link_file ::
  "'f filesystem \<Rightarrow> 'f pyfloat \<Rightarrow> 'f json \<Rightarrow> 'f json \<Rightarrow> 'f json \<Rightarrow> 'f json \<Rightarrow> 'f run_state
     \<Rightarrow> pyexn + 'f run_state" where
  "process_link_file fs py file_path original_file_path resource_id class_type st =
     (let st1 = st\<lparr>link_files_processed := link_files_processed st @ [original_file_path]\<rparr>
      in case load_json fs file_path of
           Loaded links_data \<Rightarrow>
             (case links_data of
                JList ls \<Rightarrow>
                  (case link_loop fs py file_path resource_id class_type st1 ls of
                     (st2, None) \<Rightarrow> Inr st2
                   | (st2, Some e) \<Rightarrow> bind_exn (py_print fs [file_path]) (\<lambda>u. Inr st2))
              | _ \<Rightarrow> bind_exn (py_print fs [file_path]) (\<lambda>u. Inr st1))
         | FileNotFoundError \<Rightarrow>
             bind_exn (py_print fs [file_path, original_file_path]) (\<lambda>u.
               Inr (st1\<lparr>files_not_found :=
                     files_not_found st1 @ [LinkFileNotFound file_path original_file_path]\<rparr>))
         | JSONDecodeError \<Rightarrow>
             bind_exn (py_print fs [file_path]) (\<lambda>u.
               Inr (st1\<lparr>json_errors := json_errors st1 @ [LinkJsonError file_path]\<rparr>))
         | OtherError \<Rightarrow> bind_exn (py_print fs [file_path]) (\<lambda>u. Inr st1))"

section \<open>Manifest entries (lines 44-167)\<close>

text \<open>
  One iteration of the loop of line 44. Nothing catches what is raised before the
  \<^verbatim>\<open>try\<close> of line 70 or 109, so the result is \<open>Inl\<close> there: the prints of lines 51,
  60, 63, 68, 107 and 167 are among these. Line 60 prints both paths and line 63 the
  one path that both then are.
\<close>

definition process_entry ::
  "'f filesystem \<Rightarrow> 'f pyfloat \<Rightarrow> string option \<Rightarrow> string option \<Rightarrow> 'f run_state \<Rightarrow> 'f json
     \<Rightarrow> pyexn + 'f run_state" where
  "process_entry fs py docker_path_prefix host_path_prefix st data_source_info =
     bind_exn (py_get data_source_info ''classType'' (JStr [])) (\<lambda>class_type.
     bind_exn (py_get data_source_info ''id'' JNull) (\<lambda>resource_id.
     bind_exn (get_path data_source_info [(''dataSource'', JObj []), (''info'', JObj [])])
       (\<lambda>source_details.
     bind_exn (py_get source_details ''path'' JNull) (\<lambda>original_file_path.
       if \<not> truthy py resource_id \<or> \<not> truthy py original_file_path then
         bind_exn (py_print fs [data_source_info]) (\<lambda>u. Inr st)
       else
         bind_exn (map_path docker_path_prefix host_path_prefix original_file_path)
           (\<lambda>file_path.
         bind_exn (py_print fs [original_file_path, file_path]) (\<lambda>u.
         bind_exn (py_in ''mobility.actor.Node'' class_type) (\<lambda>is_node.
           if is_node then
             bind_exn (py_print fs [file_path, resource_id]) (\<lambda>u.
               process_node_file fs file_path original_file_path resource_id st)
           else
             bind_exn (py_in ''mobility.actor.Link'' class_type) (\<lambda>is_link.
               if is_link then
                 bind_exn (py_print fs [file_path, resource_id]) (\<lambda>u.
                   process_link_file fs py file_path original_file_path resource_id
                     class_type st)
               else
                 bind_exn (py_print fs [class_type, original_file_path])
                   (\<lambda>u. Inr st)))))))))"

fun entries_loop ::
  "'f filesystem \<Rightarrow> 'f pyfloat \<Rightarrow> string option \<Rightarrow> string option \<Rightarrow> 'f run_state
     \<Rightarrow> 'f json list \<Rightarrow> pyexn + 'f run_state" where
  "entries_loop fs py docker_path_prefix host_path_prefix st [] = Inr st"
| "entries_loop fs py docker_path_prefix host_path_prefix st (data_source_info # rest) =
     bind_exn (process_entry fs py docker_path_prefix host_path_prefix st data_source_info)
       (\<lambda>st'. entries_loop fs py docker_path_prefix host_path_prefix st' rest)"

section \<open>The end of the run (lines 170-216)\<close>

definition gps_map_data :: "'f run_state \<Rightarrow> 'f gps_map" where
  "gps_map_data st = \<lparr>nodes = all_vertices st, edges = all_edges st, directed = False\<rparr>"

text \<open>The test of line 198.\<close>

definition no_data_due_to_errors :: "'f run_state \<Rightarrow> bool" where
  "no_data_due_to_errors st =
     (all_vertices st = [] \<and> all_edges st = [] \<and>
      (files_not_found st \<noteq> [] \<or> json_errors st \<noteq> [] \<or> key_errors st \<noteq> []))"

text \<open>What a run did to the file system: the directory it made, the document it wrote.\<close>

record 'f effects =
  dir_created :: bool
  file_written :: "'f gps_map option"

definition no_effects :: "'f effects" where
  "no_effects = \<lparr>dir_created = False, file_written = None\<rparr>"

text \<open>Lines 202-216; both handlers only print.\<close>

definition save_output :: "'f filesystem \<Rightarrow> string \<Rightarrow> 'f gps_map \<Rightarrow> 'f effects" where
  "save_output fs output_path doc =
     (if dir_missing fs output_path then
        (if makedirs_ok fs output_path then
           \<lparr>dir_created = True,
            file_written = (if write_ok fs output_path then Some doc else None)\<rparr>
         else no_effects)
      else
        \<lparr>dir_created = False,
         file_written = (if write_ok fs output_path then Some doc else None)\<rparr>)"

text \<open>
  How a call that does not raise ends: at one of the three \<^verbatim>\<open>return\<close>s of lines 31-37,
  at the one of line 41, at the one of line 200, or after the attempt to save.
\<close>

datatype 'f outcome =
    ConfigUnreadable
  | MissingDataSources
  | NoData "'f run_state"
  | Saved "'f run_state" "'f effects"

definition effects_of :: "'f outcome \<Rightarrow> 'f effects" where
  "effects_of out = (case out of Saved st eff \<Rightarrow> eff | _ \<Rightarrow> no_effects)"

definition finish :: "'f filesystem \<Rightarrow> string \<Rightarrow> 'f run_state \<Rightarrow> 'f outcome" where
  "finish fs output_path st =
     (if no_data_due_to_errors st then NoData st
      else Saved st (save_output fs output_path (gps_map_data st)))"

section \<open>The whole conversion\<close>

text \<open>
  Lines 25-28: the path is printed, outside the \<^verbatim>\<open>try\<close>, and then the manifest is
  opened and decoded.
\<close>

definition read_config :: "'f filesystem \<Rightarrow> string \<Rightarrow> pyexn + 'f read_result" where
  "read_config fs simulation_config_path =
     bind_exn (py_print fs [JStr simulation_config_path])
       (\<lambda>u. Inr (load_json fs (JStr simulation_config_path)))"

text \<open>Lines 44-167: every entry of the manifest is processed.\<close>

definition run_pass ::
  "'f filesystem \<Rightarrow> 'f pyfloat \<Rightarrow> string option \<Rightarrow> string option \<Rightarrow> 'f json
     \<Rightarrow> pyexn + 'f run_state" where
  "run_pass fs py docker_path_prefix host_path_prefix config =
     bind_exn (py_get config ''actorsDataSources'' (JList [])) (\<lambda>sources.
     bind_exn (py_iter sources) (\<lambda>entries.
       entries_loop fs py docker_path_prefix host_path_prefix initial_state entries))"

definition convert_simulation_data ::
  "'f filesystem \<Rightarrow> 'f pyfloat \<Rightarrow> string \<Rightarrow> string \<Rightarrow> string option \<Rightarrow> string option
     \<Rightarrow> pyexn + 'f outcome" where
  "convert_simulation_data fs py simulation_config_path output_path
       docker_path_prefix host_path_prefix =
     bind_exn (read_config fs simulation_config_path) (\<lambda>r.
       case r of
         Loaded config \<Rightarrow>
           bind_exn (py_in ''actorsDataSources'' config) (\<lambda>present.
             if \<not> present then Inr MissingDataSources
             else
               bind_exn (run_pass fs py docker_path_prefix host_path_prefix config)
                 (\<lambda>st. Inr (finish fs output_path st)))
       | _ \<Rightarrow> Inr ConfigUnreadable)"

section \<open>The command line (lines 249-266)\<close>

text \<open>The namespace that \<^verbatim>\<open>parser.parse_args()\<close> returns.\<close>

record cli_args =
  config_file :: string
  output_file :: string
  docker_prefix :: "string option"
  host_prefix :: "string option"

text \<open>
  The script leaves through \<^verbatim>\<open>parser.error\<close> (exit status 2) or \<^verbatim>\<open>exit(1)\<close>, or it
  dies of an exception raised by the print of line 257, or it calls
  \<open>convert_simulation_data\<close>.
\<close>

datatype 'f script_result = SysExit nat | Uncaught pyexn | Called "pyexn + 'f outcome"

definition main :: "'f filesystem \<Rightarrow> 'f pyfloat \<Rightarrow> cli_args \<Rightarrow> 'f script_result" where
  "main fs py args =
     (if (supplied (docker_prefix args) \<and> \<not> supplied (host_prefix args)) \<or>
         (\<not> supplied (docker_prefix args) \<and> supplied (host_prefix args))
      then SysExit 2
      else if \<not> exists fs (config_file args) then
        (case py_print fs [JStr (config_file args)] of
           Inl e \<Rightarrow> Uncaught e
         | Inr u \<Rightarrow> SysExit 1)
      else Called (convert_simulation_data fs py (config_file args) (output_file args)
                     (docker_prefix args) (host_prefix args)))"

text \<open>What the script did to the file system.\<close>

definition script_effects :: "'f script_result \<Rightarrow> 'f effects" where
  "script_effects r = (case r of Called (Inr out) \<Rightarrow> effects_of out | _ \<Rightarrow> no_effects)"

section \<open>Notions used to state the properties\<close>

text \<open>
  The value stored under a key of a dictionary, and the value reached by a sequence of
  keys through nested dictionaries; \<open>None\<close> when a key is absent or when a value on the
  way is not a dictionary.
\<close>

definition field :: "'f json \<Rightarrow> string \<Rightarrow> 'f json option" where
  "field v k = (case v of JObj kvs \<Rightarrow> map_of kvs k | _ \<Rightarrow> None)"

fun field_at :: "'f json \<Rightarrow> string list \<Rightarrow> 'f json option" where
  "field_at v [] = Some v"
| "field_at v (k # ks) = (case field v k of None \<Rightarrow> None | Some x \<Rightarrow> field_at x ks)"

text \<open>
  A field is missing at a nested location when every value met on the way is a
  dictionary and one of them does not have its key.
\<close>

fun lacks :: "'f json \<Rightarrow> string list \<Rightarrow> bool" where
  "lacks v [] = False"
| "lacks v (k # ks) =
     (case v of
        JObj kvs \<Rightarrow> (case map_of kvs k of None \<Rightarrow> True | Some x \<Rightarrow> lacks x ks)
      | _ \<Rightarrow> False)"

text \<open>A node record with its four fields in place, and one that misses one of them.\<close>

definition valid_node :: "'f json \<Rightarrow> bool" where
  "valid_node r =
     (field_at r [''id''] \<noteq> None \<and> field_at r [''typeActor''] \<noteq> None \<and>
      field_at r [''data'', ''content'', ''latitude''] \<noteq> None \<and>
      field_at r [''data'', ''content'', ''longitude''] \<noteq> None)"

definition node_missing_field :: "'f json \<Rightarrow> bool" where
  "node_missing_field r =
     (lacks r [''id''] \<or> lacks r [''typeActor''] \<or>
      lacks r [''data'', ''content'', ''latitude''] \<or>
      lacks r [''data'', ''content'', ''longitude''])"

text \<open>A location of a link record yields an endpoint when it holds a value that counts as true.\<close>

definition yields :: "'f pyfloat \<Rightarrow> 'f json \<Rightarrow> string list \<Rightarrow> bool" where
  "yields py r ks = (case field_at r ks of None \<Rightarrow> False | Some v \<Rightarrow> truthy py v)"

definition has_endpoint :: "'f pyfloat \<Rightarrow> 'f json \<Rightarrow> string \<Rightarrow> bool" where
  "has_endpoint py r key =
     (yields py r [''data'', ''content'', key] \<or> yields py r [''dependencies'', key, ''id''])"

text \<open>A value that \<^verbatim>\<open>float\<close> accepts.\<close>

definition parses :: "'f pyfloat \<Rightarrow> 'f json \<Rightarrow> bool" where
  "parses py v = (case py_float py v of Inl e \<Rightarrow> False | Inr x \<Rightarrow> True)"

text \<open>
  A link record with an \<^verbatim>\<open>id\<close>, a \<^verbatim>\<open>length\<close> that \<^verbatim>\<open>float\<close> accepts and both
  endpoints.
\<close>

definition valid_link :: "'f pyfloat \<Rightarrow> 'f json \<Rightarrow> bool" where
  "valid_link py r =
     (field_at r [''id''] \<noteq> None \<and>
      (case field_at r [''data'', ''content'', ''length''] of
         None \<Rightarrow> False | Some l \<Rightarrow> parses py l) \<and>
      has_endpoint py r ''from_node'' \<and> has_endpoint py r ''to_node'')"

text \<open>
  A manifest entry with an identifier, a path and a class tag: \<^verbatim>\<open>id\<close> counts as true,
  \<^verbatim>\<open>dataSource.info.path\<close> is a non-empty string and \<^verbatim>\<open>classType\<close> a string.
\<close>

definition valid_entry :: "'f pyfloat \<Rightarrow> 'f json \<Rightarrow> bool" where
  "valid_entry py e =
     ((case field e ''id'' of None \<Rightarrow> False | Some i \<Rightarrow> truthy py i) \<and>
      (case field_at e [''dataSource'', ''info'', ''path''] of
         Some (JStr p) \<Rightarrow> p \<noteq> [] | _ \<Rightarrow> False) \<and>
      (case field e ''classType'' of Some (JStr c) \<Rightarrow> True | _ \<Rightarrow> False))"

text \<open>The dispatch on the class tag: a node entry, or else a link entry.\<close>

definition is_node_entry :: "'f json \<Rightarrow> bool" where
  "is_node_entry e =
     (case field e ''classType'' of
        Some (JStr c) \<Rightarrow> str_contains ''mobility.actor.Node'' c | _ \<Rightarrow> False)"

definition is_link_entry :: "'f json \<Rightarrow> bool" where
  "is_link_entry e =
     (case field e ''classType'' of
        Some (JStr c) \<Rightarrow>
          \<not> str_contains ''mobility.actor.Node'' c \<and> str_contains ''mobility.actor.Link'' c
      | _ \<Rightarrow> False)"

text \<open>
  The records of the file that an entry refers to: the items of the list found at the
  mapped path, and none when the file cannot be read or does not hold a list.
\<close>

definition entry_records ::
  "'f filesystem \<Rightarrow> string option \<Rightarrow> string option \<Rightarrow> 'f json \<Rightarrow> 'f json list" where
  "entry_records fs docker_path_prefix host_path_prefix e =
     (case field_at e [''dataSource'', ''info'', ''path''] of
        None \<Rightarrow> []
      | Some p \<Rightarrow>
          (case map_path docker_path_prefix host_path_prefix p of
             Inl x \<Rightarrow> []
           | Inr file_path \<Rightarrow>
               (case load_json fs file_path of Loaded (JList rs) \<Rightarrow> rs | _ \<Rightarrow> [])))"

text \<open>The file of an entry is a list of records.\<close>

definition entry_file_is_list ::
  "'f filesystem \<Rightarrow> string option \<Rightarrow> string option \<Rightarrow> 'f json \<Rightarrow> bool" where
  "entry_file_is_list fs docker_path_prefix host_path_prefix e =
     (case field_at e [''dataSource'', ''info'', ''path''] of
        None \<Rightarrow> False
      | Some p \<Rightarrow>
          (case map_path docker_path_prefix host_path_prefix p of
             Inl x \<Rightarrow> False
           | Inr file_path \<Rightarrow>
               (case load_json fs file_path of Loaded (JList rs) \<Rightarrow> True | _ \<Rightarrow> False)))"

text \<open>
  A manifest of the expected shape: a dictionary whose \<^verbatim>\<open>actorsDataSources\<close>, when
  present, is a list of dictionaries, in each of which \<^verbatim>\<open>dataSource\<close> and its
  \<^verbatim>\<open>info\<close> are dictionaries when present, and \<^verbatim>\<open>path\<close> and \<^verbatim>\<open>classType\<close> are
  strings when present.
\<close>

definition dict_or_absent :: "'f json option \<Rightarrow> bool" where
  "dict_or_absent x = (case x of None \<Rightarrow> True | Some (JObj kvs) \<Rightarrow> True | Some _ \<Rightarrow> False)"

definition str_or_absent :: "'f json option \<Rightarrow> bool" where
  "str_or_absent x = (case x of None \<Rightarrow> True | Some (JStr s) \<Rightarrow> True | Some _ \<Rightarrow> False)"

definition entry_shaped :: "'f json \<Rightarrow> bool" where
  "entry_shaped e =
     ((case e of JObj kvs \<Rightarrow> True | _ \<Rightarrow> False) \<and>
      dict_or_absent (field e ''dataSource'') \<and>
      dict_or_absent (field_at e [''dataSource'', ''info'']) \<and>
      str_or_absent (field_at e [''dataSource'', ''info'', ''path'']) \<and>
      str_or_absent (field e ''classType''))"

definition manifest_shaped :: "'f json \<Rightarrow> bool" where
  "manifest_shaped config =
     (case config of
        JObj kvs \<Rightarrow>
          (case map_of kvs ''actorsDataSources'' of
             None \<Rightarrow> True
           | Some (JList es) \<Rightarrow> list_all entry_shaped es
           | Some _ \<Rightarrow> False)
      | _ \<Rightarrow> False)"

text \<open>
  What the handlers of lines 87 and 145 print for the id of a record: the value of
  \<^verbatim>\<open>record.get('id', 'unknown ID')\<close> on a dictionary.
\<close>

definition id_or_unknown :: "'f json \<Rightarrow> 'f json" where
  "id_or_unknown r = (case field r ''id'' of None \<Rightarrow> JStr ''unknown ID'' | Some i \<Rightarrow> i)"

text \<open>
  A record whose processing prints nothing that the standard output cannot encode: a
  valid record prints nothing; for any other record the handlers print the path of the
  file and the id of the record, or the record itself, and for a link its length.
\<close>

definition node_reportable :: "'f filesystem \<Rightarrow> 'f json \<Rightarrow> 'f json \<Rightarrow> bool" where
  "node_reportable fs file_path n =
     (valid_node n \<or>
      (printable fs file_path \<and> printable fs n \<and> printable fs (id_or_unknown n)))"

definition link_reportable ::
  "'f filesystem \<Rightarrow> 'f pyfloat \<Rightarrow> 'f json \<Rightarrow> 'f json \<Rightarrow> bool" where
  "link_reportable fs py file_path l =
     (valid_link py l \<or>
      (printable fs file_path \<and> printable fs l \<and> printable fs (id_or_unknown l) \<and>
       (case field_at l [''data'', ''content'', ''length''] of
          None \<Rightarrow> True | Some len \<Rightarrow> printable fs len)))"

text \<open>
  The values of a manifest entry that lines 60-68, 107 and 167 print can be encoded:
  its id, its class tag (the empty string when there is none), its path and the path
  that the mapping gives.
\<close>

definition entry_printable ::
  "'f filesystem \<Rightarrow> string option \<Rightarrow> string option \<Rightarrow> 'f json \<Rightarrow> bool" where
  "entry_printable fs docker_path_prefix host_path_prefix e =
     ((case field e ''id'' of None \<Rightarrow> True | Some i \<Rightarrow> printable fs i) \<and>
      printable fs (case field e ''classType'' of None \<Rightarrow> JStr [] | Some c \<Rightarrow> c) \<and>
      (case field_at e [''dataSource'', ''info'', ''path''] of
         None \<Rightarrow> True
       | Some p \<Rightarrow>
           printable fs p \<and>
           (case map_path docker_path_prefix host_path_prefix p of
              Inl x \<Rightarrow> True | Inr file_path \<Rightarrow> printable fs file_path)))"

text \<open>
  The same for every entry of a manifest, together with the entry itself, which line
  51 prints when it skips it.
\<close>

definition manifest_printable ::
  "'f filesystem \<Rightarrow> string option \<Rightarrow> string option \<Rightarrow> 'f json \<Rightarrow> bool" where
  "manifest_printable fs docker_path_prefix host_path_prefix config =
     (case field config ''actorsDataSources'' of
        Some (JList es) \<Rightarrow>
          list_all (\<lambda>e. printable fs e \<and>
                         entry_printable fs docker_path_prefix host_path_prefix e) es
      | _ \<Rightarrow> True)"

text \<open>
  The file system in which the file at one path decodes to the given content, all
  else being the same; it serves to compare a file with the same file without one of
  its records.
\<close>

definition with_file :: "'f filesystem \<Rightarrow> 'f json \<Rightarrow> 'f json \<Rightarrow> 'f filesystem" where
  "with_file fs file_path content =
     fs\<lparr>load_json := (load_json fs)(file_path := Loaded content)\<rparr>"

text \<open>
  The vertices, the edges and the messages that the records of a file give, in order;
  they describe the two loops in the lemmas below.
\<close>

definition node_vertices :: "'f json \<Rightarrow> 'f json list \<Rightarrow> 'f vertex list" where
  "node_vertices resource_id ns =
     concat (map (\<lambda>n. case make_vertex resource_id n of Inl e \<Rightarrow> [] | Inr v \<Rightarrow> [v]) ns)"

definition node_message :: "'f json \<Rightarrow> 'f json \<Rightarrow> 'f json \<Rightarrow> 'f message list" where
  "node_message file_path resource_id n =
     (case make_vertex resource_id n of
        Inl (KeyError k) \<Rightarrow>
          [NodeKeyError k (case field n ''id'' of None \<Rightarrow> JStr ''unknown ID'' | Some i \<Rightarrow> i)
             file_path]
      | _ \<Rightarrow> [])"

definition node_messages :: "'f json \<Rightarrow> 'f json \<Rightarrow> 'f json list \<Rightarrow> 'f message list" where
  "node_messages file_path resource_id ns = concat (map (node_message file_path resource_id) ns)"

definition link_message :: "'f pyfloat \<Rightarrow> 'f json \<Rightarrow> 'f json \<Rightarrow> 'f message list" where
  "link_message py file_path l =
     (case link_fields py l of
        Inl (KeyError k) \<Rightarrow>
          [LinkKeyError k (case field l ''id'' of None \<Rightarrow> JStr ''unknown ID'' | Some i \<Rightarrow> i)
             file_path]
      | Inl _ \<Rightarrow> []
      | Inr (s, t, i, length_str) \<Rightarrow>
          (case py_float py length_str of
             Inl ValueError \<Rightarrow>
               [LinkValueError (case field l ''id'' of None \<Rightarrow> JStr ''unknown ID'' | Some i \<Rightarrow> i)
                  file_path length_str]
           | _ \<Rightarrow> []))"

definition link_messages :: "'f pyfloat \<Rightarrow> 'f json \<Rightarrow> 'f json list \<Rightarrow> 'f message list" where
  "link_messages py file_path ls = concat (map (link_message py file_path) ls)"

definition link_edge :: "'f pyfloat \<Rightarrow> 'f json \<Rightarrow> 'f json \<Rightarrow> 'f json \<Rightarrow> 'f edge option" where
  "link_edge py resource_id class_type link =
     (case link_fields py link of
        Inl e \<Rightarrow> None
      | Inr (s, t, i, l) \<Rightarrow>
          (case py_float py l of
             Inl e \<Rightarrow> None
           | Inr x \<Rightarrow>
               if truthy py s \<and> truthy py t then Some (make_edge resource_id class_type s t i x)
               else None))"

definition link_edges :: "'f pyfloat \<Rightarrow> 'f json \<Rightarrow> 'f json \<Rightarrow> 'f json list \<Rightarrow> 'f edge list" where
  "link_edges py resource_id class_type ls =
     concat (map (\<lambda>l. case link_edge py resource_id class_type l of
                         None \<Rightarrow> [] | Some e \<Rightarrow> [e]) ls)"

text \<open>
  An instance of the float operations for running the model on examples: floats are
  whole numbers, an integer converts to itself and a string converts when it is a
  non-empty sequence of decimal digits. Every example below that relies on a string
  being accepted or rejected uses a string on which this agrees with Python.
\<close>

definition digit_of :: "char \<Rightarrow> int option" where
  "digit_of c =
     map_of [(CHR ''0'', 0), (CHR ''1'', 1), (CHR ''2'', 2), (CHR ''3'', 3), (CHR ''4'', 4),
             (CHR ''5'', 5), (CHR ''6'', 6), (CHR ''7'', 7), (CHR ''8'', 8), (CHR ''9'', 9)] c"

fun digits_value :: "int \<Rightarrow> string \<Rightarrow> int option" where
  "digits_value n [] = Some n"
| "digits_value n (c # cs) =
     (case digit_of c of None \<Rightarrow> None | Some d \<Rightarrow> digits_value (10 * n + d) cs)"

definition whole_floats :: "int pyfloat" where
  "whole_floats =
     \<lparr>float_of_int = (\<lambda>i. Some i),
      float_of_str = (\<lambda>s. if s = [] then None else digits_value 0 s),
      float_nonzero = (\<lambda>x. x \<noteq> 0)\<rparr>"

text \<open>
  Example inputs: a file system given by the list of its files, with a standard output
  that encodes every text, a manifest and its entries, node records and link records.
\<close>

definition example_fs :: "(string \<times> int read_result) list \<Rightarrow> int filesystem" where
  "example_fs files =
     \<lparr>load_json = (\<lambda>p. case p of
                     JStr s \<Rightarrow> (case map_of files s of None \<Rightarrow> FileNotFoundError | Some r \<Rightarrow> r)
                   | _ \<Rightarrow> OtherError),
      exists = (\<lambda>s. map_of files s \<noteq> None),
      dir_missing = (\<lambda>p. False),
      makedirs_ok = (\<lambda>p. True),
      write_ok = (\<lambda>p. True),
      printable = (\<lambda>v. True)\<rparr>"

definition example_entry :: "string \<Rightarrow> string \<Rightarrow> string \<Rightarrow> int json" where
  "example_entry class_type resource_id path =
     JObj [(''classType'', JStr class_type), (''id'', JStr resource_id),
           (''dataSource'', JObj [(''info'', JObj [(''path'', JStr path)])])]"

definition example_manifest :: "int json list \<Rightarrow> int json" where
  "example_manifest entries = JObj [(''actorsDataSources'', JList entries)]"

definition example_node :: "string \<Rightarrow> int json" where
  "example_node i =
     JObj [(''id'', JStr i), (''typeActor'', JStr ''mobility.actor.Node''),
           (''data'', JObj [(''content'',
              JObj [(''latitude'', JInt 10), (''longitude'', JInt 20)])])]"

definition node_without_latitude :: "int json" where
  "node_without_latitude =
     JObj [(''id'', JStr ''n2''), (''typeActor'', JStr ''mobility.actor.Node''),
           (''data'', JObj [(''content'', JObj [(''longitude'', JInt 20)])])]"

definition example_link :: "string \<Rightarrow> int json \<Rightarrow> int json" where
  "example_link i len =
     JObj [(''id'', JStr i),
           (''data'', JObj [(''content'',
              JObj [(''from_node'', JStr ''a''), (''to_node'', JStr ''b''),
                    (''length'', len)])])]"

definition link_without_endpoints :: "int json" where
  "link_without_endpoints =
     JObj [(''id'', JStr ''l9''), (''data'', JObj [(''content'', JObj [(''length'', JInt 7)])])]"

definition link_with_falsy_endpoints :: "int json" where
  "link_with_falsy_endpoints =
     JObj [(''id'', JStr ''l5''),
           (''data'', JObj [(''content'',
              JObj [(''from_node'', JStr []), (''to_node'', JInt 0), (''length'', JInt 3)])]),
           (''dependencies'',
              JObj [(''from_node'', JObj [(''id'', JStr ''a'')]),
                    (''to_node'', JObj [(''id'', JStr ''b'')])])]"

definition node_with_null_content :: "int json" where
  "node_with_null_content =
     JObj [(''id'', JStr ''n3''), (''typeActor'', JStr ''mobility.actor.Node''),
           (''data'', JObj [(''content'', JNull)])]"

definition link_without_id :: "int json" where
  "link_without_id =
     JObj [(''data'', JObj [(''content'',
              JObj [(''from_node'', JStr ''a''), (''to_node'', JStr ''b''),
                    (''length'', JStr ''abc'')])])]"

text \<open>
  A standard output with the ASCII encoding: the text of a value can be encoded when
  every string in it is made of characters below 128. The string \<open>e_acute\<close> is
  the one character U+00E9, which this output cannot encode.
\<close>

definition ascii_string :: "string \<Rightarrow> bool" where
  "ascii_string s = list_all (\<lambda>c. of_char c < (128 :: nat)) s"

fun ascii_only :: "'f json \<Rightarrow> bool" where
  "ascii_only (JStr s) = ascii_string s"
| "ascii_only (JList vs) = list_all ascii_only vs"
| "ascii_only (JObj kvs) = list_all (\<lambda>kv. ascii_string (fst kv) \<and> ascii_only (snd kv)) kvs"
| "ascii_only v = True"

definition ascii_fs :: "(string \<times> int read_result) list \<Rightarrow> int filesystem" where
  "ascii_fs files = (example_fs files)\<lparr>printable := ascii_only\<rparr>"

definition e_acute :: string where
  "e_acute = [CHR 0xE9]"

definition node_without_latitude_id :: "string \<Rightarrow> int json" where
  "node_without_latitude_id i =
     JObj [(''id'', JStr i), (''typeActor'', JStr ''mobility.actor.Node''),
           (''data'', JObj [(''content'', JObj [(''longitude'', JInt 20)])])]"

definition example_args :: "string option \<Rightarrow> string option \<Rightarrow> cli_args" where
  "example_args d h =
     \<lparr>config_file = ''config.json'', output_file = ''GPSMap.json'',
      docker_prefix = d, host_prefix = h\<rparr>"

text \<open>
  The file of a node entry or of a link entry holds a list of well-formed records
  only.
\<close>

definition well_formed_file ::
  "'f filesystem \<Rightarrow> 'f pyfloat \<Rightarrow> string option \<Rightarrow> string option \<Rightarrow> 'f json \<Rightarrow> bool" where
  "well_formed_file fs py docker_path_prefix host_path_prefix e =
     ((is_node_entry e \<longrightarrow>
         entry_file_is_list fs docker_path_prefix host_path_prefix e \<and>
         list_all valid_node (entry_records fs docker_path_prefix host_path_prefix e)) \<and>
      (is_link_entry e \<longrightarrow>
         entry_file_is_list fs docker_path_prefix host_path_prefix e \<and>
         list_all (valid_link py) (entry_records fs docker_path_prefix host_path_prefix e)))"

text \<open>The numbers of valid node records and of valid link records behind a list of entries.\<close>

definition valid_node_count ::
  "'f filesystem \<Rightarrow> string option \<Rightarrow> string option \<Rightarrow> 'f json list \<Rightarrow> nat" where
  "valid_node_count fs docker_path_prefix host_path_prefix es =
     sum_list (map (\<lambda>e. length (filter valid_node
                           (entry_records fs docker_path_prefix host_path_prefix e)))
                 (filter is_node_entry es))"

definition valid_link_count ::
  "'f filesystem \<Rightarrow> 'f pyfloat \<Rightarrow> string option \<Rightarrow> string option \<Rightarrow> 'f json list \<Rightarrow> nat" where
  "valid_link_count fs py docker_path_prefix host_path_prefix es =
     sum_list (map (\<lambda>e. length (filter (valid_link py)
                           (entry_records fs docker_path_prefix host_path_prefix e)))
                 (filter is_link_entry es))"

definition example_entries :: "int json list" where
  "example_entries =
     [example_entry ''mobility.actor.Node'' ''s1'' ''/app/data/nodes.json'',
      example_entry ''mobility.actor.Link'' ''s2'' ''/app/data/links.json'']"

definition example_files :: "int filesystem" where
  "example_files =
     example_fs
       [(''config.json'', Loaded (example_manifest example_entries)),
        (''/host/sim/nodes.json'', Loaded (JList [example_node ''n1'', example_node ''n2''])),
        (''/host/sim/links.json'', Loaded (JList [example_link ''l1'' (JInt 5)]))]"

section \<open>Basic facts\<close>

lemma bind_exn_Inl [simp]: "bind_exn (Inl e) k = Inl e"
  by (simp add: bind_exn_def)

lemma bind_exn_Inr [simp]: "bind_exn (Inr x) k = k x"
  by (simp add: bind_exn_def)

lemma bind_exn_eq_Inr: "bind_exn m k = Inr y \<longleftrightarrow> (\<exists>x. m = Inr x \<and> k x = Inr y)"
  by (cases m) simp_all

lemma bind_exn_eq_Inl: "bind_exn m k = Inl e \<longleftrightarrow> m = Inl e \<or> (\<exists>x. m = Inr x \<and> k x = Inl e)"
  by (cases m) auto

lemma replace_first_prefix: "replace_first d h (d @ rest) = h @ rest"
proof (cases "d @ rest")
  case Nil
  then show ?thesis by simp
next
  case (Cons c cs)
  have "prefix d (c # cs)" "drop (length d) (c # cs) = rest"
    unfolding Cons [symmetric] by simp_all
  then have "replace_first d h (c # cs) = h @ rest" by simp
  then show ?thesis by (simp add: Cons)
qed

section \<open>Subscripts and fields\<close>

lemma py_index_Inr_iff: "py_index v k = Inr x \<longleftrightarrow> field v k = Some x"
  by (auto simp: py_index_def field_def split: json.splits option.splits)

lemma py_get_obj [simp]:
  "py_get (JObj kvs) k d = Inr (case map_of kvs k of None \<Rightarrow> d | Some x \<Rightarrow> x)"
  by (simp add: py_get_def)

lemma index_path_Inr_iff: "index_path v ks = Inr x \<longleftrightarrow> field_at v ks = Some x"
proof (induction ks arbitrary: v)
  case Nil
  show ?case by auto
next
  case (Cons k ks)
  show ?case
    by (cases "field v k") (auto simp: bind_exn_eq_Inr py_index_Inr_iff Cons.IH)
qed

lemma index_path_KeyError_iff: "(\<exists>k. index_path v ks = Inl (KeyError k)) \<longleftrightarrow> lacks v ks"
proof (induction ks arbitrary: v)
  case Nil
  show ?case by simp
next
  case (Cons k ks)
  show ?case
  proof (cases v)
    case (JObj kvs)
    show ?thesis
    proof (cases "map_of kvs k")
      case None
      then show ?thesis using JObj by (simp add: py_index_def)
    next
      case (Some x)
      then have "py_index v k = Inr x" using JObj by (simp add: py_index_def)
      then show ?thesis using JObj Some Cons.IH [of x] by simp
    qed
  qed (simp_all add: py_index_def)
qed

lemma py_index_field_at: "py_index v k = Inr x \<longleftrightarrow> field_at v [k] = Some x"
  by (cases "field v k") (auto simp: py_index_Inr_iff)

lemma make_vertex_Inr_iff: "(\<exists>v. make_vertex rid n = Inr v) \<longleftrightarrow> valid_node n"
proof -
  have "(\<exists>v. make_vertex rid n = Inr v) \<longleftrightarrow>
        (\<exists>i t la lo. py_index n ''id'' = Inr i \<and> py_index n ''typeActor'' = Inr t \<and>
           index_path n [''data'', ''content'', ''latitude''] = Inr la \<and>
           index_path n [''data'', ''content'', ''longitude''] = Inr lo)"
    unfolding make_vertex_def by (auto simp add: bind_exn_eq_Inr simp del: index_path.simps)
  also have "\<dots> \<longleftrightarrow> valid_node n"
    unfolding valid_node_def py_index_field_at index_path_Inr_iff by auto
  finally show ?thesis .
qed

lemma make_vertex_KeyError_obj:
  assumes "make_vertex rid n = Inl (KeyError k)"
  shows "\<exists>kvs. n = JObj kvs"
proof (cases n)
  case (JObj kvs)
  then show ?thesis by simp
qed (use assms in \<open>simp_all add: make_vertex_def py_index_def\<close>)

lemma lacks_obj: "lacks v ks \<Longrightarrow> \<exists>kvs. v = JObj kvs"
  by (cases ks; cases v) simp_all

lemma lacks_sibling:
  "lacks v (ks @ [k]) \<Longrightarrow> lacks v (ks @ [k']) \<or> (\<exists>x. index_path v (ks @ [k']) = Inr x)"
proof (induction ks arbitrary: v)
  case Nil
  then obtain kvs where "v = JObj kvs" using lacks_obj by blast
  then show ?case by (auto simp: py_index_def split: option.splits)
next
  case (Cons a ks)
  then obtain kvs where v: "v = JObj kvs" using lacks_obj by blast
  show ?case
  proof (cases "map_of kvs a")
    case None
    then show ?thesis using v by simp
  next
    case (Some x)
    then have "py_index v a = Inr x" using v by (simp add: py_index_def)
    then show ?thesis using v Some Cons.IH [of x] Cons.prems by simp
  qed
qed

lemma node_missing_field_KeyError:
  assumes "node_missing_field n"
  shows "\<exists>k. make_vertex rid n = Inl (KeyError k)"
proof -
  obtain kvs where n: "n = JObj kvs"
    using assms lacks_obj unfolding node_missing_field_def by blast
  let ?lat = "[''data'', ''content'', ''latitude'']"
  let ?lon = "[''data'', ''content'', ''longitude'']"
  consider (a) "lacks n [''id'']"
    | (b) i where "py_index n ''id'' = Inr i" "lacks n [''typeActor'']"
    | (c) i t where "py_index n ''id'' = Inr i" "py_index n ''typeActor'' = Inr t" "lacks n ?lat"
    | (d) i t la where "py_index n ''id'' = Inr i" "py_index n ''typeActor'' = Inr t"
        "index_path n ?lat = Inr la" "lacks n ?lon"
  proof -
    have i: "lacks n [''id''] \<or> (\<exists>i. py_index n ''id'' = Inr i)"
      using n by (auto simp: py_index_def split: option.splits)
    have t: "lacks n [''typeActor''] \<or> (\<exists>t. py_index n ''typeActor'' = Inr t)"
      using n by (auto simp: py_index_def split: option.splits)
    have l: "lacks n ?lon \<Longrightarrow> lacks n ?lat \<or> (\<exists>x. index_path n ?lat = Inr x)"
      using lacks_sibling [of n "[''data'', ''content'']" "''longitude''" "''latitude''"] by simp
    show ?thesis
      using assms i t l a b c d unfolding node_missing_field_def by blast
  qed
  then show ?thesis
  proof cases
    case a
    then obtain k where "index_path n [''id''] = Inl (KeyError k)"
      using index_path_KeyError_iff by blast
    then show ?thesis by (auto simp: make_vertex_def bind_exn_eq_Inl)
  next
    case b
    then obtain k where "index_path n [''typeActor''] = Inl (KeyError k)"
      using index_path_KeyError_iff by blast
    then show ?thesis using b by (auto simp: make_vertex_def bind_exn_eq_Inl)
  next
    case c
    then obtain k where "index_path n ?lat = Inl (KeyError k)"
      using index_path_KeyError_iff by blast
    then show ?thesis using c by (simp add: make_vertex_def del: index_path.simps)
  next
    case d
    then obtain k where "index_path n ?lon = Inl (KeyError k)"
      using index_path_KeyError_iff by blast
    then show ?thesis using d by (simp add: make_vertex_def del: index_path.simps)
  qed
qed

section \<open>Link records\<close>

lemma get_path_found:
  "field_at r (map fst kds) = Some v \<Longrightarrow> get_path r kds = Inr v"
proof (induction kds arbitrary: r)
  case Nil
  then show ?case by simp
next
  case (Cons kd kds)
  obtain k d where kd: "kd = (k, d)" by (cases kd)
  from Cons.prems kd obtain x where x: "field r k = Some x" "field_at x (map fst kds) = Some v"
    by (auto split: option.splits)
  then obtain kvs where "r = JObj kvs" "map_of kvs k = Some x"
    by (cases r) (auto simp: field_def)
  then show ?case using kd x Cons.IH [of x] by simp
qed

lemma py_get_not_default:
  "py_get v k d = Inr x \<Longrightarrow> x \<noteq> d \<Longrightarrow> field v k = Some x"
  by (cases v) (auto simp: py_get_def field_def split: option.splits)

lemma field_empty [simp]: "field (JObj []) k = None"
  by (simp add: field_def)

lemma get_path3_truthy:
  assumes "get_path r [(a, JObj []), (b, JObj []), (c, JNull)] = Inr v" "truthy py v"
  shows "field_at r [a, b, c] = Some v"
proof -
  from assms(1) obtain x y where
    x: "py_get r a (JObj []) = Inr x" and y: "py_get x b (JObj []) = Inr y"
    and v: "py_get y c JNull = Inr v"
    by (auto simp: bind_exn_eq_Inr)
  have "v \<noteq> JNull" using assms(2) by auto
  then have fy: "field y c = Some v" using v py_get_not_default by blast
  then have "y \<noteq> JObj []" by auto
  then have fx: "field x b = Some y" using y py_get_not_default by blast
  then have "x \<noteq> JObj []" by auto
  then have "field r a = Some x" using x py_get_not_default by blast
  then show ?thesis using fx fy by simp
qed

lemma get_path3_sibling:
  assumes "field_at r [a, b, c'] = Some l"
  shows "\<exists>v. get_path r [(a, A), (b, B), (c, C)] = Inr v"
proof -
  from assms obtain x y where "field r a = Some x" "field x b = Some y" "field y c' = Some l"
    by (auto split: option.splits)
  then obtain k1 k2 k3 where "r = JObj k1" "map_of k1 a = Some x" "x = JObj k2"
    "map_of k2 b = Some y" "y = JObj k3"
    by (cases r; cases x; cases y) (auto simp: field_def)
  then show ?thesis by simp
qed

lemma resolve_endpoint_truthy:
  assumes "resolve_endpoint py r key = Inr s" "truthy py s"
  shows "has_endpoint py r key"
proof -
  from assms(1) obtain p where
    p: "get_path r [(''data'', JObj []), (''content'', JObj []), (key, JNull)] = Inr p"
    and s: "(if truthy py p then Inr p
             else get_path r [(''dependencies'', JObj []), (key, JObj []), (''id'', JNull)]) = Inr s"
    unfolding resolve_endpoint_def bind_exn_eq_Inr by blast
  show ?thesis
  proof (cases "truthy py p")
    case True
    then have "s = p" using s by simp
    then have "field_at r [''data'', ''content'', key] = Some s"
      using p True get_path3_truthy by blast
    then show ?thesis using assms(2) by (simp add: has_endpoint_def yields_def)
  next
    case False
    then have "get_path r [(''dependencies'', JObj []), (key, JObj []), (''id'', JNull)] = Inr s"
      using s by simp
    then have "field_at r [''dependencies'', key, ''id''] = Some s"
      using assms(2) get_path3_truthy by blast
    then show ?thesis using assms(2) by (simp add: has_endpoint_def yields_def)
  qed
qed

lemma has_endpoint_resolves:
  assumes "field_at r [''data'', ''content'', c'] = Some l" "has_endpoint py r key"
  shows "\<exists>s. resolve_endpoint py r key = Inr s \<and> truthy py s"
proof -
  obtain p where
    p: "get_path r [(''data'', JObj []), (''content'', JObj []), (key, JNull)] = Inr p"
    using get_path3_sibling [OF assms(1)] by blast
  show ?thesis
  proof (cases "truthy py p")
    case True
    then show ?thesis using p by (simp add: resolve_endpoint_def del: get_path.simps)
  next
    case False
    have "\<not> yields py r [''data'', ''content'', key]"
    proof
      assume "yields py r [''data'', ''content'', key]"
      then obtain v where v: "field_at r [''data'', ''content'', key] = Some v" "truthy py v"
        by (auto simp: yields_def split: option.splits)
      then have "get_path r [(''data'', JObj []), (''content'', JObj []), (key, JNull)] = Inr v"
        using get_path_found [of r "[(''data'', JObj []), (''content'', JObj []), (key, JNull)]" v]
        by simp
      then show False using p v False by simp
    qed
    then obtain q where q: "field_at r [''dependencies'', key, ''id''] = Some q" "truthy py q"
      using assms(2) by (auto simp: has_endpoint_def yields_def split: option.splits)
    then have "get_path r [(''dependencies'', JObj []), (key, JObj []), (''id'', JNull)] = Inr q"
      using get_path_found [of r "[(''dependencies'', JObj []), (key, JObj []), (''id'', JNull)]" q]
      by simp
    then show ?thesis using p False q by (simp add: resolve_endpoint_def del: get_path.simps)
  qed
qed

lemma link_fields_obj:
  assumes "link_fields py l \<noteq> Inl AttributeError"
  shows "\<exists>kvs. l = JObj kvs"
proof (cases l)
  case (JObj kvs)
  then show ?thesis by simp
qed (use assms in \<open>simp_all add: link_fields_def resolve_endpoint_def py_get_def\<close>)

lemma link_fields_Inr_iff:
  "link_fields py l = Inr (s, t, i, len) \<longleftrightarrow>
     resolve_endpoint py l ''from_node'' = Inr s \<and> resolve_endpoint py l ''to_node'' = Inr t \<and>
     field_at l [''id''] = Some i \<and> field_at l [''data'', ''content'', ''length''] = Some len"
proof -
  have "link_fields py l = Inr (s, t, i, len) \<longleftrightarrow>
     resolve_endpoint py l ''from_node'' = Inr s \<and> resolve_endpoint py l ''to_node'' = Inr t \<and>
     py_index l ''id'' = Inr i \<and> index_path l [''data'', ''content'', ''length''] = Inr len"
    by (auto simp add: link_fields_def bind_exn_eq_Inr simp del: index_path.simps)
  then show ?thesis by (simp only: py_index_field_at index_path_Inr_iff)
qed

lemma link_edge_Some_iff: "(\<exists>e. link_edge py rid ct l = Some e) \<longleftrightarrow> valid_link py l"
proof
  assume "\<exists>e. link_edge py rid ct l = Some e"
  then obtain s t i len x where f: "link_fields py l = Inr (s, t, i, len)"
    and x: "py_float py len = Inr x" and tr: "truthy py s" "truthy py t"
    by (auto simp: link_edge_def split: sum.splits if_splits)
  from f have r: "resolve_endpoint py l ''from_node'' = Inr s"
    "resolve_endpoint py l ''to_node'' = Inr t"
    "field_at l [''id''] = Some i" "field_at l [''data'', ''content'', ''length''] = Some len"
    unfolding link_fields_Inr_iff by simp_all
  show "valid_link py l"
    unfolding valid_link_def
    using r(3,4) x resolve_endpoint_truthy [OF r(1) tr(1)] resolve_endpoint_truthy [OF r(2) tr(2)]
    by (simp add: parses_def)
next
  assume v: "valid_link py l"
  then obtain i len where i: "field_at l [''id''] = Some i"
    and len: "field_at l [''data'', ''content'', ''length''] = Some len" and p: "parses py len"
    and e: "has_endpoint py l ''from_node''" "has_endpoint py l ''to_node''"
    unfolding valid_link_def by (auto split: option.splits)
  obtain s where s: "resolve_endpoint py l ''from_node'' = Inr s" "truthy py s"
    using has_endpoint_resolves [OF len e(1)] by blast
  obtain t where t: "resolve_endpoint py l ''to_node'' = Inr t" "truthy py t"
    using has_endpoint_resolves [OF len e(2)] by blast
  obtain x where x: "py_float py len = Inr x"
    using p by (auto simp: parses_def split: sum.splits)
  have "link_fields py l = Inr (s, t, i, len)"
    unfolding link_fields_Inr_iff using s t i len by simp
  then show "\<exists>e. link_edge py rid ct l = Some e"
    using x s t by (simp add: link_edge_def)
qed


section \<open>The loop over node records\<close>

lemma process_node_eq:
  assumes "node_reportable fs fp n"
  shows "process_node fs fp rid st n =
     Inr (st\<lparr>all_vertices := all_vertices st @ node_vertices rid [n],
             key_errors := key_errors st @ node_message fp rid n\<rparr>)"
proof (cases "make_vertex rid n")
  case (Inr v)
  then show ?thesis by (simp add: process_node_def node_vertices_def node_message_def)
next
  case (Inl e)
  then have "\<not> valid_node n" using make_vertex_Inr_iff [of rid n] by auto
  then have p: "printable fs fp" "printable fs n" "printable fs (id_or_unknown n)"
    using assms by (simp_all add: node_reportable_def)
  show ?thesis
  proof (cases e)
    case (KeyError k)
    then obtain kvs where "n = JObj kvs" using Inl make_vertex_KeyError_obj by blast
    then show ?thesis using Inl KeyError p
      by (simp add: process_node_def node_vertices_def node_message_def field_def
            id_or_unknown_def py_print_def split: option.splits)
  qed (use Inl p in \<open>simp_all add: process_node_def node_vertices_def node_message_def py_print_def\<close>)
qed

lemma node_vertices_Cons:
  "node_vertices rid (n # ns) = node_vertices rid [n] @ node_vertices rid ns"
  by (simp add: node_vertices_def)

lemma node_vertices_append:
  "node_vertices rid (xs @ ys) = node_vertices rid xs @ node_vertices rid ys"
  by (simp add: node_vertices_def)

lemma node_messages_append:
  "node_messages fp rid (xs @ ys) = node_messages fp rid xs @ node_messages fp rid ys"
  by (simp add: node_messages_def)

lemma node_loop_eq:
  assumes "list_all (node_reportable fs fp) ns"
  shows "node_loop fs fp rid st ns =
     (st\<lparr>all_vertices := all_vertices st @ node_vertices rid ns,
         key_errors := key_errors st @ node_messages fp rid ns\<rparr>, None)"
  using assms
proof (induction ns arbitrary: st)
  case Nil
  show ?case by (simp add: node_vertices_def node_messages_def)
next
  case (Cons n ns)
  then show ?case
    by (simp add: process_node_eq node_vertices_Cons [of rid n ns] node_messages_def)
qed

lemma length_node_vertices: "length (node_vertices rid ns) = length (filter valid_node ns)"
proof (induction ns)
  case Nil
  show ?case by (simp add: node_vertices_def)
next
  case (Cons n ns)
  have "length (node_vertices rid [n]) = (if valid_node n then 1 else 0)"
    using make_vertex_Inr_iff [of rid n]
    by (cases "make_vertex rid n") (auto simp: node_vertices_def)
  then show ?case using Cons.IH by (simp add: node_vertices_Cons [of rid n ns])
qed

lemma node_messages_valid: "\<forall>n\<in>set ns. valid_node n \<Longrightarrow> node_messages fp rid ns = []"
proof (induction ns)
  case Nil
  show ?case by (simp add: node_messages_def)
next
  case (Cons n ns)
  then obtain v where "make_vertex rid n = Inr v" using make_vertex_Inr_iff [of rid n] by auto
  then have "node_message fp rid n = []" by (simp add: node_message_def)
  then show ?case using Cons by (simp add: node_messages_def)
qed

lemma valid_node_reportable: "valid_node n \<Longrightarrow> node_reportable fs fp n"
  by (simp add: node_reportable_def)

section \<open>The loop over link records\<close>

lemma py_float_exn:
  "py_float py v = Inl e \<Longrightarrow> e = ValueError \<or> e = TypeError \<or> e = OverflowError"
  by (auto simp: py_float_def split: json.splits option.splits)

lemma process_link_eq:
  assumes "link_reportable fs py fp l"
  shows "process_link fs py fp rid ct st l =
     Inr (st\<lparr>all_edges := all_edges st @ link_edges py rid ct [l],
             key_errors := key_errors st @ link_message py fp l\<rparr>)"
proof (cases "valid_link py l")
  case True
  then obtain e where e: "link_edge py rid ct l = Some e" using link_edge_Some_iff by blast
  then obtain s t i len x where f: "link_fields py l = Inr (s, t, i, len)"
    and x: "py_float py len = Inr x" and tr: "truthy py s" "truthy py t"
    by (auto simp: link_edge_def split: sum.splits if_splits)
  then show ?thesis
    by (simp add: process_link_def add_edge_def link_edges_def link_edge_def link_message_def)
next
  case False
  then have p: "printable fs fp" "printable fs l" "printable fs (id_or_unknown l)"
    and pl: "\<And>len. field_at l [''data'', ''content'', ''length''] = Some len \<Longrightarrow> printable fs len"
    using assms by (simp_all add: link_reportable_def)
  show ?thesis
  proof (cases "link_fields py l")
    case (Inl e)
    show ?thesis
    proof (cases e)
      case (KeyError k)
      then obtain kvs where "l = JObj kvs" using Inl link_fields_obj [of py l] by auto
      then show ?thesis using Inl KeyError p
        by (simp add: process_link_def link_edges_def link_edge_def link_message_def field_def
              id_or_unknown_def py_print_def split: option.splits)
    qed (use Inl p in \<open>simp_all add: process_link_def link_edges_def link_edge_def
           link_message_def py_print_def\<close>)
  next
    case (Inr q)
    obtain s t i len where q: "q = (s, t, i, len)" by (cases q)
    obtain kvs where l: "l = JObj kvs" using Inr link_fields_obj [of py l] by auto
    have "link_fields py l = Inr (s, t, i, len)" using Inr q by simp
    then have fi: "field_at l [''id''] = Some i"
      "field_at l [''data'', ''content'', ''length''] = Some len"
      using link_fields_Inr_iff [of py l s t i len] by blast+
    then have pi: "printable fs i" "printable fs len"
      using p(3) pl by (simp_all add: id_or_unknown_def split: option.splits)
    have gi: "py_get l ''id'' (JStr ''unknown ID'') = Inr i"
      using fi(1) l by (simp add: field_def split: option.splits)
    show ?thesis
    proof (cases "py_float py len")
      case (Inl e)
      show ?thesis
      proof (cases e)
        case ValueError
        then show ?thesis using Inr q Inl l gi pi p fi
          by (simp add: process_link_def add_edge_def link_edges_def link_edge_def
                link_message_def field_def py_print_def is_ValueError_def
                split: option.splits)
      qed (use Inr q Inl p py_float_exn [OF Inl] in
            \<open>simp_all add: process_link_def add_edge_def link_edges_def link_edge_def
               link_message_def py_print_def is_ValueError_def\<close>)
    next
      case (Inr x)
      then show ?thesis using \<open>link_fields py l = Inr q\<close> q pi p
        by (simp add: process_link_def add_edge_def link_edges_def link_edge_def
              link_message_def py_print_def)
    qed
  qed
qed

lemma link_edges_Cons:
  "link_edges py rid ct (l # ls) = link_edges py rid ct [l] @ link_edges py rid ct ls"
  by (simp add: link_edges_def)

lemma link_edges_append:
  "link_edges py rid ct (xs @ ys) = link_edges py rid ct xs @ link_edges py rid ct ys"
  by (simp add: link_edges_def)

lemma link_messages_append:
  "link_messages py fp (xs @ ys) = link_messages py fp xs @ link_messages py fp ys"
  by (simp add: link_messages_def)

lemma link_loop_eq:
  assumes "list_all (link_reportable fs py fp) ls"
  shows "link_loop fs py fp rid ct st ls =
     (st\<lparr>all_edges := all_edges st @ link_edges py rid ct ls,
         key_errors := key_errors st @ link_messages py fp ls\<rparr>, None)"
  using assms
proof (induction ls arbitrary: st)
  case Nil
  show ?case by (simp add: link_edges_def link_messages_def)
next
  case (Cons l ls)
  then show ?case
    by (simp add: process_link_eq link_edges_Cons [of py rid ct l ls] link_messages_def)
qed

lemma length_link_edges:
  "length (link_edges py rid ct ls) = length (filter (valid_link py) ls)"
proof (induction ls)
  case Nil
  show ?case by (simp add: link_edges_def)
next
  case (Cons l ls)
  have "length (link_edges py rid ct [l]) = (if valid_link py l then 1 else 0)"
    using link_edge_Some_iff [of py rid ct l]
    by (cases "link_edge py rid ct l") (auto simp: link_edges_def)
  then show ?case using Cons.IH by (simp add: link_edges_Cons [of py rid ct l ls])
qed

lemma link_message_valid: "valid_link py l \<Longrightarrow> link_message py fp l = []"
proof -
  assume "valid_link py l"
  then obtain e where "link_edge py rid ct l = Some e" using link_edge_Some_iff by blast
  then show ?thesis
    by (auto simp: link_edge_def link_message_def split: sum.splits if_splits)
qed

lemma link_messages_valid: "\<forall>l\<in>set ls. valid_link py l \<Longrightarrow> link_messages py fp ls = []"
  by (induction ls) (simp_all add: link_messages_def link_message_valid)

lemma valid_link_reportable: "valid_link py l \<Longrightarrow> link_reportable fs py fp l"
  by (simp add: link_reportable_def)

section \<open>Whole files\<close>

lemma process_node_file_list:
  "load_json fs fp = Loaded (JList ns) \<Longrightarrow> list_all (node_reportable fs fp) ns \<Longrightarrow>
   process_node_file fs fp orig rid st =
     Inr (st\<lparr>node_files_processed := node_files_processed st @ [orig],
             all_vertices := all_vertices st @ node_vertices rid ns,
             key_errors := key_errors st @ node_messages fp rid ns\<rparr>)"
  by (simp add: process_node_file_def node_loop_eq)

lemma process_link_file_list:
  "load_json fs fp = Loaded (JList ls) \<Longrightarrow> list_all (link_reportable fs py fp) ls \<Longrightarrow>
   process_link_file fs py fp orig rid ct st =
     Inr (st\<lparr>link_files_processed := link_files_processed st @ [orig],
             all_edges := all_edges st @ link_edges py rid ct ls,
             key_errors := key_errors st @ link_messages py fp ls\<rparr>)"
  by (simp add: process_link_file_def link_loop_eq)

lemma process_node_file_returns:
  assumes "printable fs fp" "printable fs orig"
  shows "\<exists>st'. process_node_file fs fp orig rid st = Inr st'"
  using assms
  by (auto simp: process_node_file_def Let_def py_print_def
        split: read_result.splits json.splits prod.splits option.splits)

lemma process_link_file_returns:
  assumes "printable fs fp" "printable fs orig"
  shows "\<exists>st'. process_link_file fs py fp orig rid ct st = Inr st'"
  using assms
  by (auto simp: process_link_file_def Let_def py_print_def
        split: read_result.splits json.splits prod.splits option.splits)

lemma node_vertices_set:
  "make_vertex rid n = Inr v \<Longrightarrow> n \<in> set ns \<Longrightarrow> v \<in> set (node_vertices rid ns)"
  by (force simp: node_vertices_def)

lemma link_edges_set:
  "link_edge py rid ct l = Some e \<Longrightarrow> l \<in> set ls \<Longrightarrow> e \<in> set (link_edges py rid ct ls)"
  by (force simp: link_edges_def)

lemma node_missing_field_single:
  assumes "node_missing_field r"
  shows "node_vertices rid [r] = [] \<and>
         (\<exists>k. node_message fp rid r = [NodeKeyError k (id_or_unknown r) fp])"
proof -
  obtain k where "make_vertex rid r = Inl (KeyError k)"
    using node_missing_field_KeyError [OF assms] by blast
  then show ?thesis by (simp add: node_vertices_def node_message_def id_or_unknown_def)
qed

lemma unparseable_single:
  assumes "field_at r [''data'', ''content'', ''length''] = Some (JStr s)"
    and "float_of_str py s = None"
    and "field r ''id'' = Some i"
    and "resolve_endpoint py r ''from_node'' = Inr a"
    and "resolve_endpoint py r ''to_node'' = Inr b"
  shows "link_edges py rid ct [r] = [] \<and> link_message py fp r = [LinkValueError i fp (JStr s)]"
proof -
  have "field_at r [''id''] = Some i" using assms(3) by simp
  then have "link_fields py r = Inr (a, b, i, JStr s)"
    using assms(1,4,5) by (simp only: link_fields_Inr_iff)
  moreover have "py_float py (JStr s) = Inl ValueError"
    using assms(2) by (simp add: py_float_def)
  ultimately show ?thesis
    using assms(3) by (simp add: link_edges_def link_edge_def link_message_def)
qed

section \<open>Manifest entries\<close>

lemma map_path_str: "\<exists>q. map_path dp hp (JStr p) = Inr (JStr q)"
  by (auto simp: map_path_def split: option.splits)

lemma entry_shaped_source_details:
  assumes "entry_shaped e"
  obtains kvs sd where "e = JObj kvs"
    and "get_path e [(''dataSource'', JObj []), (''info'', JObj [])] = Inr (JObj sd)"
    and "field_at e [''dataSource'', ''info'', ''path''] = map_of sd ''path''"
proof -
  from assms obtain kvs where e: "e = JObj kvs"
    by (cases e) (simp_all add: entry_shaped_def)
  have ds: "dict_or_absent (map_of kvs ''dataSource'')"
    using assms e by (simp add: entry_shaped_def field_def)
  show ?thesis
  proof (cases "map_of kvs ''dataSource''")
    case None
    then have "get_path e [(''dataSource'', JObj []), (''info'', JObj [])] = Inr (JObj [])"
      "field_at e [''dataSource'', ''info'', ''path''] = map_of [] ''path''"
      using e by (simp_all add: field_def)
    then show ?thesis using that e by blast
  next
    case (Some d)
    then obtain dk where d: "d = JObj dk"
      using ds by (cases d) (simp_all add: dict_or_absent_def)
    have i: "dict_or_absent (map_of dk ''info'')"
      using assms e Some d
      by (cases "map_of dk ''info''") (simp_all add: entry_shaped_def field_def)
    show ?thesis
    proof (cases "map_of dk ''info''")
      case None
      then have "get_path e [(''dataSource'', JObj []), (''info'', JObj [])] = Inr (JObj [])"
        "field_at e [''dataSource'', ''info'', ''path''] = map_of [] ''path''"
        using e Some d by (simp_all add: field_def)
      then show ?thesis using that e by blast
    next
      case (Some i')
      then obtain ik where ik: "i' = JObj ik"
        using i by (cases i') (simp_all add: dict_or_absent_def)
      have "get_path e [(''dataSource'', JObj []), (''info'', JObj [])] = Inr (JObj ik)"
        "field_at e [''dataSource'', ''info'', ''path''] = map_of ik ''path''"
        using e \<open>map_of kvs ''dataSource'' = Some d\<close> d Some ik
        by (simp_all add: field_def split: option.splits)
      then show ?thesis using that e by blast
    qed
  qed
qed

lemma process_entry_shaped:
  assumes "entry_shaped e" and "printable fs e" and "entry_printable fs dp hp e"
  shows "\<exists>st'. process_entry fs py dp hp st e = Inr st'"
proof -
  obtain kvs sd where e: "e = JObj kvs"
    and sd: "get_path e [(''dataSource'', JObj []), (''info'', JObj [])] = Inr (JObj sd)"
    and pa: "field_at e [''dataSource'', ''info'', ''path''] = map_of sd ''path''"
    using entry_shaped_source_details [OF assms(1)] by blast
  have ct: "str_or_absent (map_of kvs ''classType'')"
    using assms(1) e by (simp add: entry_shaped_def field_def)
  obtain c where c: "py_get e ''classType'' (JStr []) = Inr (JStr c)"
    and pc: "printable fs (JStr c)"
    using ct e assms(3)
    by (cases "map_of kvs ''classType''"; cases "the (map_of kvs ''classType'')")
      (auto simp: str_or_absent_def entry_printable_def field_def)
  obtain rid where rid: "py_get e ''id'' JNull = Inr rid"
    and prid: "rid \<noteq> JNull \<Longrightarrow> printable fs rid"
    using e assms(3)
    by (cases "map_of kvs ''id''") (auto simp: entry_printable_def field_def)
  have sp: "str_or_absent (map_of sd ''path'')"
    using assms(1) pa by (simp add: entry_shaped_def)
  obtain p where p: "py_get (JObj sd) ''path'' JNull = Inr p" "p = JNull \<or> (\<exists>s. p = JStr s)"
    and pp: "p \<noteq> JNull \<Longrightarrow> map_of sd ''path'' = Some p"
    using sp by (cases "map_of sd ''path''"; cases "the (map_of sd ''path'')")
      (auto simp: str_or_absent_def)
  show ?thesis
  proof (cases "\<not> truthy py rid \<or> \<not> truthy py p")
    case True
    then show ?thesis
      unfolding process_entry_def using c rid sd p(1) assms(2)
      by (simp add: py_print_def del: get_path.simps)
  next
    case False
    then obtain s where s: "p = JStr s" using p(2) by auto
    obtain q where q: "map_path dp hp p = Inr (JStr q)" using s map_path_str by blast
    have "map_of sd ''path'' = Some p" using pp s by simp
    then have pr: "printable fs p" "printable fs (JStr q)"
      using assms(3) pa q by (simp_all add: entry_printable_def del: field_at.simps)
    have "rid \<noteq> JNull" using False by auto
    then have pi: "printable fs rid" using prid by simp
    obtain s1 where s1: "process_node_file fs (JStr q) p rid st = Inr s1"
      using process_node_file_returns [OF pr(2) pr(1)] by blast
    obtain s2 where s2: "process_link_file fs py (JStr q) p rid (JStr c) st = Inr s2"
      using process_link_file_returns [OF pr(2) pr(1)] by blast
    show ?thesis
      unfolding process_entry_def using c rid sd p(1) False q pr pi pc s1 s2
      by (simp add: py_in_def py_print_def del: get_path.simps)
  qed
qed

lemma entries_loop_shaped:
  "list_all (\<lambda>e. entry_shaped e \<and> printable fs e \<and> entry_printable fs dp hp e) es \<Longrightarrow>
   \<exists>st'. entries_loop fs py dp hp st es = Inr st'"
proof (induction es arbitrary: st)
  case Nil
  show ?case by simp
next
  case (Cons e es)
  then obtain st1 where "process_entry fs py dp hp st e = Inr st1"
    using process_entry_shaped [of e fs dp hp py st] by auto
  then show ?case using Cons by simp
qed

lemma valid_entry_shaped: "valid_entry py e \<Longrightarrow> entry_shaped e"
  by (cases e)
     (auto simp: valid_entry_def entry_shaped_def field_def dict_or_absent_def str_or_absent_def
           split: option.splits json.splits)

lemma process_entry_valid:
  assumes "valid_entry py e" and "entry_printable fs dp hp e"
  shows "\<exists>rid p c fp.
           field e ''id'' = Some rid \<and>
           field_at e [''dataSource'', ''info'', ''path''] = Some (JStr p) \<and>
           field e ''classType'' = Some (JStr c) \<and>
           map_path dp hp (JStr p) = Inr fp \<and>
           process_entry fs py dp hp st e =
             (if str_contains ''mobility.actor.Node'' c
              then process_node_file fs fp (JStr p) rid st
              else if str_contains ''mobility.actor.Link'' c
              then process_link_file fs py fp (JStr p) rid (JStr c) st
              else Inr st)"
proof -
  obtain kvs sd where e: "e = JObj kvs"
    and sd: "get_path e [(''dataSource'', JObj []), (''info'', JObj [])] = Inr (JObj sd)"
    and pa: "field_at e [''dataSource'', ''info'', ''path''] = map_of sd ''path''"
    using entry_shaped_source_details [OF valid_entry_shaped [OF assms(1)]] by blast
  from assms(1) e obtain rid where rid: "map_of kvs ''id'' = Some rid" "truthy py rid"
    by (auto simp: valid_entry_def field_def split: option.splits)
  from assms(1) pa obtain p where p: "map_of sd ''path'' = Some (JStr p)" "p \<noteq> []"
    by (auto simp: valid_entry_def split: option.splits json.splits)
  from assms(1) e obtain c where c: "map_of kvs ''classType'' = Some (JStr c)"
    by (auto simp: valid_entry_def field_def split: option.splits json.splits)
  obtain q where q: "map_path dp hp (JStr p :: 'a json) = Inr (JStr q)"
    using map_path_str by blast
  have pr: "printable fs rid" "printable fs (JStr c)" "printable fs (JStr p)"
    "printable fs (JStr q)"
    using assms(2) e rid(1) c pa p(1) q
    by (simp_all add: entry_printable_def field_def del: field_at.simps)
  have "process_entry fs py dp hp st e =
             (if str_contains ''mobility.actor.Node'' c
              then process_node_file fs (JStr q) (JStr p) rid st
              else if str_contains ''mobility.actor.Link'' c
              then process_link_file fs py (JStr q) (JStr p) rid (JStr c) st
              else Inr st)"
    unfolding process_entry_def using e rid p c q sd pr
    by (simp add: py_in_def py_print_def del: get_path.simps)
  then show ?thesis
    using e rid p c q pa by (auto simp: field_def)
qed

lemma entry_step:
  assumes "valid_entry py e" and "entry_printable fs dp hp e"
    and "well_formed_file fs py dp hp e"
  shows "\<exists>st'. process_entry fs py dp hp st e = Inr st' \<and>
           length (all_vertices st') = length (all_vertices st) +
             (if is_node_entry e
              then length (filter valid_node (entry_records fs dp hp e)) else 0) \<and>
           length (all_edges st') = length (all_edges st) +
             (if is_link_entry e
              then length (filter (valid_link py) (entry_records fs dp hp e)) else 0) \<and>
           files_not_found st' = files_not_found st \<and> json_errors st' = json_errors st \<and>
           key_errors st' = key_errors st"
proof -
  obtain rid p c fp where rid: "field e ''id'' = Some rid"
    and p: "field_at e [''dataSource'', ''info'', ''path''] = Some (JStr p)"
    and c: "field e ''classType'' = Some (JStr c)"
    and fp: "map_path dp hp (JStr p) = Inr fp"
    and pe: "process_entry fs py dp hp st e =
             (if str_contains ''mobility.actor.Node'' c
              then process_node_file fs fp (JStr p) rid st
              else if str_contains ''mobility.actor.Link'' c
              then process_link_file fs py fp (JStr p) rid (JStr c) st
              else Inr st)"
    using process_entry_valid [OF assms(1,2), of st] by blast
  have recs: "entry_records fs dp hp e =
        (case load_json fs fp of Loaded (JList rs) \<Rightarrow> rs | _ \<Rightarrow> [])"
    using p fp by (simp add: entry_records_def del: field_at.simps)
  have isl: "entry_file_is_list fs dp hp e \<longleftrightarrow> (\<exists>rs. load_json fs fp = Loaded (JList rs))"
    using p fp
    by (auto simp add: entry_file_is_list_def split: read_result.splits json.splits
          simp del: field_at.simps)
  have ne: "is_node_entry e = str_contains ''mobility.actor.Node'' c"
    using c by (simp add: is_node_entry_def)
  have le: "is_link_entry e =
      (\<not> str_contains ''mobility.actor.Node'' c \<and> str_contains ''mobility.actor.Link'' c)"
    using c by (simp add: is_link_entry_def)
  consider (node) "is_node_entry e" | (link) "is_link_entry e"
    | (other) "\<not> is_node_entry e" "\<not> is_link_entry e"
    by blast
  then show ?thesis
  proof cases
    case node
    then have not_link: "\<not> is_link_entry e" using ne le by simp
    from assms(3) node obtain rs where rs: "load_json fs fp = Loaded (JList rs)"
      and v: "list_all valid_node rs"
      using isl recs by (auto simp: well_formed_file_def)
    have r: "list_all (node_reportable fs fp) rs"
      using v by (simp add: list_all_iff valid_node_reportable)
    have m: "node_messages fp rid rs = []"
      using v node_messages_valid [of rs fp rid] by (simp add: list_all_iff)
    have "process_entry fs py dp hp st e =
        Inr (st\<lparr>node_files_processed := node_files_processed st @ [JStr p],
             all_vertices := all_vertices st @ node_vertices rid rs,
             key_errors := key_errors st @ node_messages fp rid rs\<rparr>)"
      using pe node ne process_node_file_list [OF rs r] by simp
    then show ?thesis
      using node not_link m recs rs by (simp add: length_node_vertices)
  next
    case link
    then have not_node: "\<not> is_node_entry e" using ne le by simp
    from assms(3) link obtain rs where rs: "load_json fs fp = Loaded (JList rs)"
      and v: "list_all (valid_link py) rs"
      using isl recs by (auto simp: well_formed_file_def)
    have r: "list_all (link_reportable fs py fp) rs"
      using v by (simp add: list_all_iff valid_link_reportable)
    have m: "link_messages py fp rs = []"
      using v link_messages_valid [of rs py fp] by (simp add: list_all_iff)
    have "process_entry fs py dp hp st e =
        Inr (st\<lparr>link_files_processed := link_files_processed st @ [JStr p],
             all_edges := all_edges st @ link_edges py rid (JStr c) rs,
             key_errors := key_errors st @ link_messages py fp rs\<rparr>)"
      using pe link ne le process_link_file_list [OF rs r] by simp
    then show ?thesis
      using link not_node m recs rs by (simp add: length_link_edges)
  next
    case other
    then have "process_entry fs py dp hp st e = Inr st"
      using pe ne le by simp
    then show ?thesis using other by simp
  qed
qed

lemma entries_loop_counts:
  assumes "\<forall>e\<in>set es. valid_entry py e \<and> entry_printable fs dp hp e \<and>
             well_formed_file fs py dp hp e"
  shows "\<exists>st'. entries_loop fs py dp hp st es = Inr st' \<and>
           length (all_vertices st') = length (all_vertices st) + valid_node_count fs dp hp es \<and>
           length (all_edges st') = length (all_edges st) + valid_link_count fs py dp hp es \<and>
           files_not_found st' = files_not_found st \<and> json_errors st' = json_errors st \<and>
           key_errors st' = key_errors st"
  using assms
proof (induction es arbitrary: st)
  case Nil
  show ?case by (simp add: valid_node_count_def valid_link_count_def)
next
  case (Cons e es)
  then have ve: "valid_entry py e" "entry_printable fs dp hp e" "well_formed_file fs py dp hp e"
    and ves: "\<forall>e\<in>set es. valid_entry py e \<and> entry_printable fs dp hp e \<and>
             well_formed_file fs py dp hp e"
    by simp_all
  obtain st1 where s1: "process_entry fs py dp hp st e = Inr st1"
    and v1: "length (all_vertices st1) = length (all_vertices st) +
             (if is_node_entry e
              then length (filter valid_node (entry_records fs dp hp e)) else 0)"
    and e1: "length (all_edges st1) = length (all_edges st) +
             (if is_link_entry e
              then length (filter (valid_link py) (entry_records fs dp hp e)) else 0)"
    and c1: "files_not_found st1 = files_not_found st \<and> json_errors st1 = json_errors st \<and>
              key_errors st1 = key_errors st"
    using entry_step [OF ve, of st] by blast
  obtain st2 where s2: "entries_loop fs py dp hp st1 es = Inr st2"
    and v2: "length (all_vertices st2) = length (all_vertices st1) + valid_node_count fs dp hp es"
    and e2: "length (all_edges st2) = length (all_edges st1) + valid_link_count fs py dp hp es"
    and c2: "files_not_found st2 = files_not_found st1 \<and> json_errors st2 = json_errors st1 \<and>
              key_errors st2 = key_errors st1"
    using Cons.IH [OF ves, of st1] by blast
  have "entries_loop fs py dp hp st (e # es) = Inr st2" using s1 s2 by simp
  moreover have "length (all_vertices st2) =
      length (all_vertices st) + valid_node_count fs dp hp (e # es)"
    using v1 v2 by (simp add: valid_node_count_def)
  moreover have "length (all_edges st2) =
      length (all_edges st) + valid_link_count fs py dp hp (e # es)"
    using e1 e2 by (simp add: valid_link_count_def)
  moreover have "files_not_found st2 = files_not_found st \<and> json_errors st2 = json_errors st \<and>
              key_errors st2 = key_errors st"
    using c1 c2 by simp
  ultimately show ?case by blast
qed

lemma well_formed_counts:
  assumes "\<forall>e\<in>set es. well_formed_file fs py dp hp e"
  shows "valid_node_count fs dp hp es =
           sum_list (map (\<lambda>e. length (entry_records fs dp hp e)) (filter is_node_entry es))"
    and "valid_link_count fs py dp hp es =
           sum_list (map (\<lambda>e. length (entry_records fs dp hp e)) (filter is_link_entry es))"
proof -
  have "map (\<lambda>e. length (filter valid_node (entry_records fs dp hp e))) (filter is_node_entry es)
      = map (\<lambda>e. length (entry_records fs dp hp e)) (filter is_node_entry es)"
    by (rule map_cong [OF refl])
       (use assms in \<open>auto simp: well_formed_file_def list_all_iff\<close>)
  then show "valid_node_count fs dp hp es =
           sum_list (map (\<lambda>e. length (entry_records fs dp hp e)) (filter is_node_entry es))"
    unfolding valid_node_count_def by (rule arg_cong [where f = sum_list])
  have "map (\<lambda>e. length (filter (valid_link py) (entry_records fs dp hp e)))
          (filter is_link_entry es)
      = map (\<lambda>e. length (entry_records fs dp hp e)) (filter is_link_entry es)"
    by (rule map_cong [OF refl])
       (use assms in \<open>auto simp: well_formed_file_def list_all_iff\<close>)
  then show "valid_link_count fs py dp hp es =
           sum_list (map (\<lambda>e. length (entry_records fs dp hp e)) (filter is_link_entry es))"
    unfolding valid_link_count_def by (rule arg_cong [where f = sum_list])
qed

section \<open>One file replaced\<close>

lemma load_json_with_file [simp]: "load_json (with_file fs fp c) fp = Loaded c"
  by (simp add: with_file_def)

lemma printable_with_file [simp]: "printable (with_file fs fp c) = printable fs"
  by (simp add: with_file_def)

lemma node_reportable_with_file [simp]:
  "node_reportable (with_file fs fp' c) fp = node_reportable fs fp"
  by (rule ext) (simp add: node_reportable_def)

lemma link_reportable_with_file [simp]:
  "link_reportable (with_file fs fp' c) py fp = link_reportable fs py fp"
  by (rule ext) (simp add: link_reportable_def del: field_at.simps cong: option.case_cong)

section \<open>Records that leave no message\<close>

lemma py_get_not_KeyError: "py_get v k d \<noteq> Inl (KeyError x)"
  by (cases v) (simp_all add: py_get_def)

lemma get_path_not_KeyError: "get_path v kds \<noteq> Inl (KeyError x)"
proof (induction kds arbitrary: v)
  case Nil
  show ?case by simp
next
  case (Cons kd kds)
  obtain k d where kd: "kd = (k, d)" by (cases kd)
  show ?case
    using Cons.IH py_get_not_KeyError [of v k d x]
    by (cases "py_get v k d") (simp_all add: kd)
qed

lemma resolve_endpoint_not_KeyError: "resolve_endpoint py l key \<noteq> Inl (KeyError x)"
  unfolding resolve_endpoint_def
  using get_path_not_KeyError
  by (auto simp add: bind_exn_eq_Inl simp del: get_path.simps)

lemma link_message_none:
  assumes "field l ''id'' = Some i"
    and "field_at l [''data'', ''content'', ''length''] = Some len"
    and "parses py len"
  shows "link_message py fp l = []"
proof (cases "link_fields py l")
  case (Inl e)
  have i: "py_index l ''id'' = Inr i" using assms(1) by (simp add: py_index_Inr_iff)
  have len: "index_path l [''data'', ''content'', ''length''] = Inr len"
    using assms(2) by (simp only: index_path_Inr_iff)
  have "e \<noteq> KeyError k" for k
  proof
    assume "e = KeyError k"
    then have "link_fields py l = Inl (KeyError k)" using Inl by simp
    then show False
      using i len resolve_endpoint_not_KeyError [of py l]
      by (auto simp add: link_fields_def bind_exn_eq_Inl simp del: index_path.simps)
  qed
  then show ?thesis using Inl by (cases e) (auto simp: link_message_def)
next
  case (Inr q)
  obtain s t j len' where q: "q = (s, t, j, len')" by (cases q)
  then have "field_at l [''data'', ''content'', ''length''] = Some len'"
    using Inr link_fields_Inr_iff [of py l s t j len'] by blast
  then have "len' = len" using assms(2) by simp
  then show ?thesis
    using Inr q assms(3)
    by (auto simp: link_message_def parses_def split: sum.splits)
qed
section \<open>The properties\<close>

subsection \<open>Missing endpoints\<close>

text \<open>
  Claim C1, as stated, fails: a run over one link file whose only record has an
  \<^verbatim>\<open>id\<close> and a \<^verbatim>\<open>length\<close> but no endpoint at either location ends with the three
  error lists empty.
\<close>

theorem missing_endpoint_not_recorded:
  "\<not> has_endpoint whole_floats link_without_endpoints ''from_node'' \<and>
   convert_simulation_data
     (example_fs
        [(''config.json'',
          Loaded (example_manifest [example_entry ''mobility.actor.Link'' ''shard'' ''links.json''])),
         (''links.json'', Loaded (JList [link_without_endpoints]))])
     whole_floats ''config.json'' ''GPSMap.json'' None None
   = Inr (Saved
       \<lparr>all_vertices = [], all_edges = [], node_files_processed = [],
        link_files_processed = [JStr ''links.json''], files_not_found = [], json_errors = [],
        key_errors = []\<rparr>
       \<lparr>dir_created = False,
        file_written = Some \<lparr>nodes = [], edges = [], directed = False\<rparr>\<rparr>)"
proof -
  have "process_link fs whole_floats fp rid ct st link_without_endpoints = Inr st"
    if "\<And>v. printable fs v" for fs fp rid ct st
    using that
    by (simp add: process_link_def add_edge_def link_fields_def resolve_endpoint_def
          link_without_endpoints_def py_index_def py_float_def whole_floats_def py_print_def)
  then show ?thesis
    by (simp add: convert_simulation_data_def read_config_def run_pass_def process_entry_def
          process_link_file_def example_fs_def example_manifest_def example_entry_def
          py_in_def py_iter_def py_print_def map_path_def initial_state_def finish_def
          no_data_due_to_errors_def save_output_def gps_map_data_def
          has_endpoint_def yields_def link_without_endpoints_def field_def)
qed

text \<open>
  Claim C1, as amended. Take a link file in which every record that is not valid has
  a path, an id, a text and a length that the standard output can encode. A record of
  the file in which neither location yields a value for one of the two endpoints is
  skipped without interrupting the pass: it gives no edge, the run over the file ends
  normally, and its edges are those of the same file without the record, the edge of
  every other record among them. The failure is printed and not accumulated: when the
  record has an \<^verbatim>\<open>id\<close> and a \<^verbatim>\<open>length\<close> that \<^verbatim>\<open>float\<close> accepts, the three error lists
  are those of the same file without the record.
\<close>

theorem missing_endpoint_skipped:
  assumes "\<not> has_endpoint py r ''from_node'' \<or> \<not> has_endpoint py r ''to_node''"
    and "list_all (link_reportable fs py fp) (pre @ r # post)"
  shows "link_edge py rid ct r = None \<and>
         (\<exists>s s'.
            process_link_file (with_file fs fp (JList (pre @ r # post))) py fp orig rid ct st
              = Inr s \<and>
            process_link_file (with_file fs fp (JList (pre @ post))) py fp orig rid ct st
              = Inr s' \<and>
            all_edges s = all_edges s' \<and>
            (\<forall>l\<in>set (pre @ post). \<forall>e. link_edge py rid ct l = Some e \<longrightarrow>
               e \<in> set (all_edges s)) \<and>
            (field r ''id'' \<noteq> None \<and>
             (\<exists>len. field_at r [''data'', ''content'', ''length''] = Some len \<and> parses py len)
             \<longrightarrow> key_errors s = key_errors s' \<and> files_not_found s = files_not_found s' \<and>
                 json_errors s = json_errors s'))"
proof -
  have "\<not> valid_link py r" using assms(1) by (auto simp: valid_link_def)
  then have n: "link_edge py rid ct r = None"
    using link_edge_Some_iff [of py rid ct r] by (cases "link_edge py rid ct r") auto
  then have "link_edges py rid ct [r] = []" by (simp add: link_edges_def)
  then have e: "link_edges py rid ct (pre @ r # post) = link_edges py rid ct (pre @ post)"
    using link_edges_Cons [of py rid ct r post] by (simp add: link_edges_append)
  have m: "link_messages py fp (pre @ r # post) = link_messages py fp (pre @ post)"
    if "field r ''id'' \<noteq> None"
      and "\<exists>len. field_at r [''data'', ''content'', ''length''] = Some len \<and> parses py len"
  proof -
    from that obtain i len where "field r ''id'' = Some i"
      "field_at r [''data'', ''content'', ''length''] = Some len" "parses py len"
      by auto
    then have "link_message py fp r = []" by (rule link_message_none)
    then show ?thesis by (simp add: link_messages_def)
  qed
  have in_edges: "e \<in> set (link_edges py rid ct (pre @ post))"
    if "l \<in> set (pre @ post)" and "link_edge py rid ct l = Some e" for l e
    using that link_edges_set by blast
  let ?fa = "with_file fs fp (JList (pre @ r # post))"
  let ?fb = "with_file fs fp (JList (pre @ post))"
  have ra: "list_all (link_reportable ?fa py fp) (pre @ r # post)"
    using assms(2) by simp
  have rb: "list_all (link_reportable ?fb py fp) (pre @ post)"
    using assms(2) by simp
  have a: "process_link_file ?fa py fp orig rid ct st =
      Inr (st\<lparr>link_files_processed := link_files_processed st @ [orig],
             all_edges := all_edges st @ link_edges py rid ct (pre @ r # post),
             key_errors := key_errors st @ link_messages py fp (pre @ r # post)\<rparr>)"
    by (rule process_link_file_list [OF load_json_with_file ra])
  have b: "process_link_file ?fb py fp orig rid ct st =
      Inr (st\<lparr>link_files_processed := link_files_processed st @ [orig],
             all_edges := all_edges st @ link_edges py rid ct (pre @ post),
             key_errors := key_errors st @ link_messages py fp (pre @ post)\<rparr>)"
    by (rule process_link_file_list [OF load_json_with_file rb])
  show ?thesis
    using n e m in_edges unfolding a b by auto
qed

theorem missing_endpoint_skipped_witness:
  "\<not> has_endpoint whole_floats link_without_endpoints ''from_node'' \<and>
   \<not> has_endpoint whole_floats link_without_endpoints ''to_node'' \<and>
   list_all (link_reportable (example_fs []) whole_floats (JStr ''links.json''))
     ([example_link ''l1'' (JInt 5)] @ link_without_endpoints # []) \<and>
   link_edge whole_floats (JStr ''shard'') (JStr ''mobility.actor.Link'') link_without_endpoints
     = None \<and>
   (\<exists>s s'.
      process_link_file
        (with_file (example_fs []) (JStr ''links.json'')
           (JList ([example_link ''l1'' (JInt 5)] @ link_without_endpoints # [])))
        whole_floats (JStr ''links.json'') (JStr ''links.json'') (JStr ''shard'')
        (JStr ''mobility.actor.Link'') initial_state = Inr s \<and>
      process_link_file
        (with_file (example_fs []) (JStr ''links.json'')
           (JList ([example_link ''l1'' (JInt 5)] @ [])))
        whole_floats (JStr ''links.json'') (JStr ''links.json'') (JStr ''shard'')
        (JStr ''mobility.actor.Link'') initial_state = Inr s' \<and>
      all_edges s = all_edges s' \<and> key_errors s = key_errors s')"
proof -
  have h0: "\<not> has_endpoint whole_floats link_without_endpoints ''from_node'' \<and>
    \<not> has_endpoint whole_floats link_without_endpoints ''to_node''"
    by (simp add: has_endpoint_def yields_def link_without_endpoints_def field_def)
  then have h1: "\<not> has_endpoint whole_floats link_without_endpoints ''from_node'' \<or>
    \<not> has_endpoint whole_floats link_without_endpoints ''to_node''"
    by simp
  have h2: "list_all (link_reportable (example_fs []) whole_floats (JStr ''links.json''))
     ([example_link ''l1'' (JInt 5)] @ link_without_endpoints # [])"
    by (simp add: link_reportable_def example_fs_def example_link_def
          link_without_endpoints_def field_def)
  have h3: "field link_without_endpoints ''id'' \<noteq> None \<and>
     (\<exists>len. field_at link_without_endpoints [''data'', ''content'', ''length''] = Some len \<and>
        parses whole_floats len)"
    by (simp add: link_without_endpoints_def field_def parses_def py_float_def whole_floats_def)
  show ?thesis
    using h0 h2 h3
      missing_endpoint_skipped [OF h1 h2, of "JStr ''shard''" "JStr ''mobility.actor.Link''"
        "JStr ''links.json''" initial_state]
    by blast
qed

subsection \<open>Exceptions that leave the conversion\<close>

text \<open>
  Claim C2, as stated, fails: a manifest that decodes to the number 5 makes the
  membership test of line 39 raise \<^verbatim>\<open>TypeError\<close>, and an entry that is a string makes
  line 45 raise \<^verbatim>\<open>AttributeError\<close>; neither line is inside a \<^verbatim>\<open>try\<close>.
\<close>

theorem malformed_manifest_raises:
  "convert_simulation_data (example_fs [(''config.json'', Loaded (JInt 5))]) whole_floats
     ''config.json'' ''GPSMap.json'' None None = Inl TypeError \<and>
   convert_simulation_data
     (example_fs [(''config.json'', Loaded (example_manifest [JStr ''nodes.json'']))])
     whole_floats ''config.json'' ''GPSMap.json'' None None = Inl AttributeError"
  by (simp add: convert_simulation_data_def read_config_def run_pass_def process_entry_def
        example_fs_def example_manifest_def py_in_def py_iter_def py_get_def py_print_def)

text \<open>
  Claim C2, as amended. Suppose that the standard output can encode the path of the
  manifest, the output path and, for every entry of the manifest, the entry, its id,
  its class tag, its path and the path that the mapping gives. When the manifest, if
  it can be read, is a dictionary whose \<^verbatim>\<open>actorsDataSources\<close> is a list of
  dictionaries with dictionaries
  at \<^verbatim>\<open>dataSource\<close> and \<^verbatim>\<open>dataSource.info\<close> and strings at \<^verbatim>\<open>path\<close> and
  \<^verbatim>\<open>classType\<close> (each of them when present), the conversion raises nothing, whatever
  the prefixes and the contents of the data files: it returns at one of its \<^verbatim>\<open>return\<close>s
  or after the attempt to save.
\<close>

theorem shaped_manifest_never_raises:
  assumes "printable fs (JStr cfg)"
    and "\<forall>config. load_json fs (JStr cfg) = Loaded config \<longrightarrow>
           manifest_shaped config \<and> manifest_printable fs dp hp config"
    and "printable fs (JStr outp)"
  shows "\<exists>out. convert_simulation_data fs py cfg outp dp hp = Inr out"
proof (cases "load_json fs (JStr cfg)")
  case (Loaded config)
  then have sh: "manifest_shaped config" and pr: "manifest_printable fs dp hp config"
    using assms(2) by simp_all
  from sh obtain kvs where config: "config = JObj kvs"
    by (cases config) (simp_all add: manifest_shaped_def)
  have rc: "read_config fs cfg = Inr (Loaded config)"
    using assms(1) Loaded by (simp add: read_config_def py_print_def)
  show ?thesis
  proof (cases "map_of kvs ''actorsDataSources''")
    case None
    then have "''actorsDataSources'' \<notin> set (map fst kvs)"
      by (simp add: map_of_eq_None_iff)
    then show ?thesis
      using rc config by (simp add: convert_simulation_data_def py_in_def)
  next
    case (Some v)
    then obtain es where v: "v = JList es" and es: "list_all entry_shaped es"
      using sh config by (cases v) (simp_all add: manifest_shaped_def)
    have "list_all (\<lambda>e. printable fs e \<and> entry_printable fs dp hp e) es"
      using pr config Some v by (simp add: manifest_printable_def field_def)
    then have "list_all (\<lambda>e. entry_shaped e \<and> printable fs e \<and> entry_printable fs dp hp e) es"
      using es by (simp add: list_all_iff)
    then obtain st where "entries_loop fs py dp hp initial_state es = Inr st"
      using entries_loop_shaped by blast
    moreover have "''actorsDataSources'' \<in> set (map fst kvs)"
      using Some by (metis map_of_eq_None_iff option.distinct(1) set_map)
    ultimately show ?thesis
      using rc config Some v
      by (simp add: convert_simulation_data_def py_in_def run_pass_def py_iter_def)
  qed
qed (use assms(1) in \<open>simp_all add: convert_simulation_data_def read_config_def py_print_def\<close>)

theorem shaped_manifest_never_raises_witness:
  "printable
     (example_fs [(''config.json'',
        Loaded (example_manifest [example_entry ''mobility.actor.Node'' ''shard'' ''nodes.json'']))])
     (JStr ''config.json'') \<and>
   manifest_shaped (example_manifest [example_entry ''mobility.actor.Node'' ''shard'' ''nodes.json'']) \<and>
   manifest_printable
     (example_fs [(''config.json'',
        Loaded (example_manifest [example_entry ''mobility.actor.Node'' ''shard'' ''nodes.json'']))])
     None None
     (example_manifest [example_entry ''mobility.actor.Node'' ''shard'' ''nodes.json'']) \<and>
   printable
     (example_fs [(''config.json'',
        Loaded (example_manifest [example_entry ''mobility.actor.Node'' ''shard'' ''nodes.json'']))])
     (JStr ''GPSMap.json'') \<and>
   (\<exists>out. convert_simulation_data
      (example_fs [(''config.json'',
         Loaded (example_manifest [example_entry ''mobility.actor.Node'' ''shard'' ''nodes.json'']))])
      whole_floats ''config.json'' ''GPSMap.json'' None None = Inr out)"
proof -
  let ?m = "example_manifest [example_entry ''mobility.actor.Node'' ''shard'' ''nodes.json'']"
  let ?fs = "example_fs [(''config.json'', Loaded ?m)]"
  have p: "printable ?fs v" for v
    by (simp add: example_fs_def)
  have m: "manifest_shaped ?m"
    by (simp add: example_manifest_def example_entry_def manifest_shaped_def
          entry_shaped_def dict_or_absent_def str_or_absent_def field_def)
  have mp: "manifest_printable ?fs None None ?m"
    using p
    by (simp add: manifest_printable_def entry_printable_def example_manifest_def
          example_entry_def field_def map_path_def)
  have l: "load_json ?fs (JStr ''config.json'') = Loaded ?m"
    by (simp add: example_fs_def)
  have h: "\<forall>config. load_json ?fs (JStr ''config.json'') = Loaded config \<longrightarrow>
      manifest_shaped config \<and> manifest_printable ?fs None None config"
    using m mp l by simp
  show ?thesis
    using p m mp
      shaped_manifest_never_raises [OF p h p, of whole_floats]
    by blast
qed

subsection \<open>Counts of vertices and edges\<close>

text \<open>
  Claim C3, as stated, fails: take a manifest with one node entry that has an id, a
  path and a class tag, whose file holds one valid record, and a standard output with
  the ASCII encoding. When the id of the entry is the character U+00E9, the print of
  line 68, which is outside every \<^verbatim>\<open>try\<close>, raises \<^verbatim>\<open>UnicodeEncodeError\<close>: the call
  ends there and there is no output document.
\<close>

theorem unencodable_id_no_document:
  "list_all (valid_entry whole_floats)
     [example_entry ''mobility.actor.Node'' e_acute ''nodes.json''] \<and>
   list_all
     (well_formed_file
        (ascii_fs
           [(''config.json'',
             Loaded (example_manifest [example_entry ''mobility.actor.Node'' e_acute ''nodes.json''])),
            (''nodes.json'', Loaded (JList [example_node ''n1'']))])
        whole_floats None None)
     [example_entry ''mobility.actor.Node'' e_acute ''nodes.json''] \<and>
   valid_node_count
     (ascii_fs
        [(''config.json'',
          Loaded (example_manifest [example_entry ''mobility.actor.Node'' e_acute ''nodes.json''])),
         (''nodes.json'', Loaded (JList [example_node ''n1'']))])
     None None [example_entry ''mobility.actor.Node'' e_acute ''nodes.json''] = 1 \<and>
   convert_simulation_data
     (ascii_fs
        [(''config.json'',
          Loaded (example_manifest [example_entry ''mobility.actor.Node'' e_acute ''nodes.json''])),
         (''nodes.json'', Loaded (JList [example_node ''n1'']))])
     whole_floats ''config.json'' ''GPSMap.json'' None None
   = Inl UnicodeEncodeError"
proof -
  let ?e = "example_entry ''mobility.actor.Node'' e_acute ''nodes.json'' :: int json"
  let ?fs = "ascii_fs [(''config.json'', Loaded (example_manifest [?e])),
            (''nodes.json'', Loaded (JList [example_node ''n1'']))]"
  have v: "list_all (valid_entry whole_floats) [?e]"
    by (simp add: example_entry_def valid_entry_def field_def e_acute_def)
  have r: "entry_records ?fs None None ?e = [example_node ''n1'']"
    by (simp add: entry_records_def example_entry_def field_def map_path_def ascii_fs_def
          example_fs_def)
  have il: "entry_file_is_list ?fs None None ?e"
    by (simp add: entry_file_is_list_def example_entry_def field_def map_path_def ascii_fs_def
          example_fs_def)
  have cls: "is_node_entry ?e" "\<not> is_link_entry ?e"
    by (simp_all add: is_node_entry_def is_link_entry_def example_entry_def field_def)
  have vn: "valid_node (example_node ''n1'')"
    by (simp add: valid_node_def example_node_def field_def)
  have w: "list_all (well_formed_file ?fs whole_floats None None) [?e]"
    using r il cls vn by (simp add: well_formed_file_def)
  have c: "valid_node_count ?fs None None [?e] = 1"
    using r cls vn by (simp add: valid_node_count_def)
  have "convert_simulation_data ?fs whole_floats ''config.json'' ''GPSMap.json'' None None
      = Inl UnicodeEncodeError"
    by (simp add: convert_simulation_data_def read_config_def run_pass_def process_entry_def
          ascii_fs_def example_fs_def example_manifest_def example_entry_def py_in_def
          py_iter_def py_print_def map_path_def ascii_string_def e_acute_def)
  then show ?thesis using v w c by simp
qed

text \<open>
  Claim C3, as amended. Suppose that the standard output can encode the path of the
  manifest, the output path and the id, the class tag, the path and the mapped path of
  each entry of the manifest. For a manifest whose entries all have an identifier, a
  path and a class tag, and whose node and link entries refer to files that hold well-formed records
  only, the run ends with the output document handed to the save step; its \<^verbatim>\<open>nodes\<close>
  list is as long as there are valid node records in the files of the node entries,
  which are all their records, and its \<^verbatim>\<open>edges\<close> list as long as there are valid
  link records in the files of the link entries, counted entry by entry with nothing
  merged and nothing added.
\<close>

theorem output_counts:
  assumes "printable fs (JStr cfg)"
    and "load_json fs (JStr cfg) = Loaded (JObj m)"
    and "map_of m ''actorsDataSources'' = Some (JList es)"
    and "\<forall>e\<in>set es. valid_entry py e \<and> entry_printable fs dp hp e \<and>
           well_formed_file fs py dp hp e"
    and "printable fs (JStr outp)"
  shows "\<exists>st. run_pass fs py dp hp (JObj m) = Inr st \<and>
           convert_simulation_data fs py cfg outp dp hp =
             Inr (Saved st (save_output fs outp (gps_map_data st))) \<and>
           length (nodes (gps_map_data st)) = valid_node_count fs dp hp es \<and>
           length (edges (gps_map_data st)) = valid_link_count fs py dp hp es \<and>
           length (nodes (gps_map_data st)) =
             sum_list (map (\<lambda>e. length (entry_records fs dp hp e))
                         (filter is_node_entry es)) \<and>
           length (edges (gps_map_data st)) =
             sum_list (map (\<lambda>e. length (entry_records fs dp hp e))
                         (filter is_link_entry es))"
proof -
  obtain st where loop: "entries_loop fs py dp hp initial_state es = Inr st"
    and v: "length (all_vertices st) = valid_node_count fs dp hp es"
    and e: "length (all_edges st) = valid_link_count fs py dp hp es"
    and c: "files_not_found st = [] \<and> json_errors st = [] \<and> key_errors st = []"
    using entries_loop_counts [OF assms(4), of initial_state]
    by (auto simp: initial_state_def)
  have wf: "\<forall>e\<in>set es. well_formed_file fs py dp hp e" using assms(4) by simp
  have key: "''actorsDataSources'' \<in> set (map fst m)"
    using assms(3) by (metis map_of_eq_None_iff option.distinct(1) set_map)
  have pass: "run_pass fs py dp hp (JObj m) = Inr st"
    using assms(3) loop by (simp add: run_pass_def py_iter_def)
  have rc: "read_config fs cfg = Inr (Loaded (JObj m))"
    using assms(1,2) by (simp add: read_config_def py_print_def)
  have fin: "finish fs outp st = Saved st (save_output fs outp (gps_map_data st))"
    using c by (simp add: finish_def no_data_due_to_errors_def)
  have conv: "convert_simulation_data fs py cfg outp dp hp =
      Inr (Saved st (save_output fs outp (gps_map_data st)))"
    using rc key pass fin by (simp add: convert_simulation_data_def py_in_def)
  show ?thesis
    using pass conv v e well_formed_counts [OF wf]
    by (auto simp: gps_map_data_def)
qed

theorem output_counts_witness:
  "printable example_files (JStr ''config.json'') \<and>
   printable example_files (JStr ''GPSMap.json'') \<and>
   load_json example_files (JStr ''config.json'')
     = Loaded (JObj [(''actorsDataSources'', JList example_entries)]) \<and>
   map_of [(''actorsDataSources'', JList example_entries)] ''actorsDataSources''
     = Some (JList example_entries) \<and>
   list_all (valid_entry whole_floats) example_entries \<and>
   list_all (entry_printable example_files (Some ''/app/data/'') (Some ''/host/sim/''))
     example_entries \<and>
   list_all (well_formed_file example_files whole_floats (Some ''/app/data/'') (Some ''/host/sim/''))
     example_entries \<and>
   (\<exists>st. convert_simulation_data example_files whole_floats ''config.json'' ''GPSMap.json''
            (Some ''/app/data/'') (Some ''/host/sim/'')
          = Inr (Saved st (save_output example_files ''GPSMap.json'' (gps_map_data st))) \<and>
        length (nodes (gps_map_data st)) = 2 \<and> length (edges (gps_map_data st)) = 1)"
proof -
  let ?dp = "Some ''/app/data/''" and ?hp = "Some ''/host/sim/''"
  have p: "printable example_files v" for v
    by (simp add: example_files_def example_fs_def)
  have h1: "load_json example_files (JStr ''config.json'')
     = Loaded (JObj [(''actorsDataSources'', JList example_entries)])"
    by (simp add: example_files_def example_fs_def example_manifest_def)
  have h2: "map_of [(''actorsDataSources'', JList example_entries)] ''actorsDataSources''
     = Some (JList example_entries)"
    by simp
  have v: "list_all (valid_entry whole_floats) example_entries"
    by (simp add: example_entries_def example_entry_def valid_entry_def field_def)
  have ep: "list_all (entry_printable example_files ?dp ?hp) example_entries"
    using p
    by (simp add: example_entries_def example_entry_def entry_printable_def field_def
          map_path_def)
  have rn: "entry_records example_files ?dp ?hp
              (example_entry ''mobility.actor.Node'' ''s1'' ''/app/data/nodes.json'')
            = [example_node ''n1'', example_node ''n2'']"
    by (simp add: entry_records_def example_entry_def field_def map_path_def example_files_def
          example_fs_def)
  have rl: "entry_records example_files ?dp ?hp
              (example_entry ''mobility.actor.Link'' ''s2'' ''/app/data/links.json'')
            = [example_link ''l1'' (JInt 5)]"
    by (simp add: entry_records_def example_entry_def field_def map_path_def example_files_def
          example_fs_def)
  have il: "entry_file_is_list example_files ?dp ?hp
              (example_entry ''mobility.actor.Node'' ''s1'' ''/app/data/nodes.json'')"
    "entry_file_is_list example_files ?dp ?hp
              (example_entry ''mobility.actor.Link'' ''s2'' ''/app/data/links.json'')"
    by (simp_all add: entry_file_is_list_def example_entry_def field_def map_path_def
          example_files_def example_fs_def)
  have cls: "is_node_entry (example_entry ''mobility.actor.Node'' ''s1'' ''/app/data/nodes.json'' :: int json)"
    "\<not> is_link_entry (example_entry ''mobility.actor.Node'' ''s1'' ''/app/data/nodes.json'' :: int json)"
    "\<not> is_node_entry (example_entry ''mobility.actor.Link'' ''s2'' ''/app/data/links.json'' :: int json)"
    "is_link_entry (example_entry ''mobility.actor.Link'' ''s2'' ''/app/data/links.json'' :: int json)"
    by (simp_all add: is_node_entry_def is_link_entry_def example_entry_def field_def)
  have vn: "valid_node (example_node ''n1'')" "valid_node (example_node ''n2'')"
    by (simp_all add: valid_node_def example_node_def field_def)
  have vl: "valid_link whole_floats (example_link ''l1'' (JInt 5))"
    by (simp add: valid_link_def example_link_def field_def parses_def py_float_def
          whole_floats_def has_endpoint_def yields_def)
  have w: "list_all (well_formed_file example_files whole_floats ?dp ?hp) example_entries"
    using rn rl il cls vn vl by (simp add: example_entries_def well_formed_file_def)
  have n2: "sum_list (map (\<lambda>e. length (entry_records example_files ?dp ?hp e))
              (filter is_node_entry example_entries)) = 2"
    using rn cls by (simp add: example_entries_def)
  have e1: "sum_list (map (\<lambda>e. length (entry_records example_files ?dp ?hp e))
              (filter is_link_entry example_entries)) = 1"
    using rl cls by (simp add: example_entries_def)
  have h4: "\<forall>e\<in>set example_entries. valid_entry whole_floats e \<and>
      entry_printable example_files ?dp ?hp e \<and>
      well_formed_file example_files whole_floats ?dp ?hp e"
    using v ep w by (simp add: list_all_iff)
  show ?thesis
    using p h1 h2 v ep w n2 e1 output_counts [OF p h1 h2 h4 p]
    by auto
qed

subsection \<open>Path mapping\<close>

text \<open>
  Claim C4, as stated, fails when a prefix is supplied as the empty string: with the
  Docker prefix \<^verbatim>\<open>/app/data/\<close> and the host prefix \<^verbatim>\<open>''\<close>, both supplied, the raw
  path \<^verbatim>\<open>/app/data/nodes.json\<close> starts with the Docker prefix, and replacing its
  leading occurrence by the host prefix gives \<^verbatim>\<open>nodes.json\<close>; the test of line 56
  takes the empty string for false and the raw path is used unchanged.
\<close>

theorem empty_host_prefix_not_replaced:
  "prefix ''/app/data/'' ''/app/data/nodes.json'' \<and>
   replace_first ''/app/data/'' [] ''/app/data/nodes.json'' = ''nodes.json'' \<and>
   map_path (Some ''/app/data/'') (Some []) (JStr ''/app/data/nodes.json'')
     = Inr (JStr ''/app/data/nodes.json'' :: int json) \<and>
   ''/app/data/nodes.json'' \<noteq> ''nodes.json''"
  by (simp add: map_path_def)

text \<open>
  Claim C4, as amended. With both prefixes supplied and not empty, and a raw path that
  starts with the Docker prefix, the resolved path is the host prefix followed by what
  comes after the leading Docker prefix in the raw path, whatever that remainder
  contains; in every other case (a prefix absent or empty, or a raw path that does not
  start with the Docker prefix) the raw path is used as it is.
\<close>

theorem path_mapping:
  "(dp = Some d \<and> hp = Some h \<and> d \<noteq> [] \<and> h \<noteq> [] \<and> p = d @ rest
      \<longrightarrow> map_path dp hp (JStr p) = Inr (JStr (h @ rest)))
   \<and> (\<not> (\<exists>d' h'. dp = Some d' \<and> hp = Some h' \<and> d' \<noteq> [] \<and> h' \<noteq> [] \<and> prefix d' p)
      \<longrightarrow> map_path dp hp (JStr p) = Inr (JStr p))"
proof (intro conjI impI)
  assume "dp = Some d \<and> hp = Some h \<and> d \<noteq> [] \<and> h \<noteq> [] \<and> p = d @ rest"
  then show "map_path dp hp (JStr p) = Inr (JStr (h @ rest))"
    by (simp add: map_path_def replace_first_prefix)
next
  assume "\<not> (\<exists>d' h'. dp = Some d' \<and> hp = Some h' \<and> d' \<noteq> [] \<and> h' \<noteq> [] \<and> prefix d' p)"
  then show "map_path dp hp (JStr p) = Inr (JStr p)"
    by (auto simp: map_path_def split: option.splits)
qed

theorem path_mapping_witness:
  "''/app/data/nodes.json'' = ''/app/data/'' @ ''nodes.json'' \<and>
   map_path (Some ''/app/data/'') (Some ''/host/sim/'') (JStr ''/app/data/nodes.json'')
     = Inr (JStr ''/host/sim/nodes.json'' :: int json) \<and>
   ''/a/a/x'' = ''/a'' @ ''/a/x'' \<and>
   map_path (Some ''/a'') (Some ''/h'') (JStr ''/a/a/x'') = Inr (JStr ''/h/a/x'' :: int json) \<and>
   \<not> prefix ''/app/data/'' ''/srv/links.json'' \<and>
   map_path (Some ''/app/data/'') (Some ''/host/sim/'') (JStr ''/srv/links.json'')
     = Inr (JStr ''/srv/links.json'' :: int json) \<and>
   map_path (Some ''/app/data/'') None (JStr ''/app/data/nodes.json'')
     = Inr (JStr ''/app/data/nodes.json'' :: int json) \<and>
   map_path (Some []) (Some ''/host/sim/'') (JStr ''/app/data/nodes.json'')
     = Inr (JStr ''/app/data/nodes.json'' :: int json)"
  using
    path_mapping [of "Some ''/app/data/''" "''/app/data/''" "Some ''/host/sim/''" "''/host/sim/''"
      "''/app/data/nodes.json''" "''nodes.json''"]
    path_mapping [of "Some ''/a''" "''/a''" "Some ''/h''" "''/h''" "''/a/a/x''" "''/a/x''"]
    path_mapping [of "Some ''/app/data/''" "[]" "Some ''/host/sim/''" "[]" "''/srv/links.json''" "[]"]
    path_mapping [of "Some ''/app/data/''" "[]" None "[]" "''/app/data/nodes.json''" "[]"]
    path_mapping [of "Some []" "[]" "Some ''/host/sim/''" "[]" "''/app/data/nodes.json''" "[]"]
  by simp

subsection \<open>The output gate\<close>



subsection \<open>Node records with a missing field\<close>

text \<open>
  Claim C6, as stated, fails in two ways. A record whose \<^verbatim>\<open>data.content\<close> is \<^verbatim>\<open>null\<close>
  has no \<^verbatim>\<open>latitude\<close>; line 83 raises \<^verbatim>\<open>TypeError\<close>, which the handler of line 91
  only prints, and the key-error list stays empty. And under a standard output with
  the ASCII encoding, a record without \<^verbatim>\<open>latitude\<close> whose id is the character U+00E9
  makes the print of line 89 raise before line 90 records anything; the exception
  leaves the loop, so that the valid record after it gives no vertex.
\<close>

theorem missing_latitude_not_counted:
  "field_at node_with_null_content [''data'', ''content'', ''latitude''] = None \<and>
   process_node_file
     (example_fs [(''nodes.json'', Loaded (JList [node_with_null_content, example_node ''n1'']))])
     (JStr ''nodes.json'') (JStr ''nodes.json'') (JStr ''shard'') initial_state
   = Inr \<lparr>all_vertices =
            [\<lparr>vertex_id = JStr ''n1'', vertex_classType = JStr ''mobility.actor.Node'',
              vertex_resourceId = JStr ''shard'', latitude = JInt 10, longitude = JInt 20\<rparr>],
          all_edges = [], node_files_processed = [JStr ''nodes.json''],
          link_files_processed = [], files_not_found = [], json_errors = [],
          key_errors = []\<rparr> \<and>
   field_at (node_without_latitude_id e_acute) [''data'', ''content'', ''latitude''] = None \<and>
   valid_node (example_node ''n1'') \<and>
   process_node_file
     (ascii_fs [(''nodes.json'',
        Loaded (JList [node_without_latitude_id e_acute, example_node ''n1'']))])
     (JStr ''nodes.json'') (JStr ''nodes.json'') (JStr ''shard'') initial_state
   = Inr \<lparr>all_vertices = [], all_edges = [], node_files_processed = [JStr ''nodes.json''],
          link_files_processed = [], files_not_found = [], json_errors = [],
          key_errors = []\<rparr>"
proof -
  have a: "field_at node_with_null_content [''data'', ''content'', ''latitude''] = None"
    by (simp add: node_with_null_content_def field_def)
  have b: "process_node_file
     (example_fs [(''nodes.json'', Loaded (JList [node_with_null_content, example_node ''n1'']))])
     (JStr ''nodes.json'') (JStr ''nodes.json'') (JStr ''shard'') initial_state
   = Inr \<lparr>all_vertices =
            [\<lparr>vertex_id = JStr ''n1'', vertex_classType = JStr ''mobility.actor.Node'',
              vertex_resourceId = JStr ''shard'', latitude = JInt 10, longitude = JInt 20\<rparr>],
          all_edges = [], node_files_processed = [JStr ''nodes.json''],
          link_files_processed = [], files_not_found = [], json_errors = [],
          key_errors = []\<rparr>"
    by (simp add: process_node_file_def process_node_def make_vertex_def py_index_def
          py_print_def example_fs_def node_with_null_content_def example_node_def
          initial_state_def)
  have c: "field_at (node_without_latitude_id e_acute) [''data'', ''content'', ''latitude'']
      = None"
    by (simp add: node_without_latitude_id_def field_def)
  have d: "valid_node (example_node ''n1'')"
    by (simp add: valid_node_def example_node_def field_def)
  have e: "process_node_file
     (ascii_fs [(''nodes.json'',
        Loaded (JList [node_without_latitude_id e_acute, example_node ''n1'']))])
     (JStr ''nodes.json'') (JStr ''nodes.json'') (JStr ''shard'') initial_state
   = Inr \<lparr>all_vertices = [], all_edges = [], node_files_processed = [JStr ''nodes.json''],
          link_files_processed = [], files_not_found = [], json_errors = [],
          key_errors = []\<rparr>"
    by (simp add: process_node_file_def process_node_def make_vertex_def py_index_def
          py_print_def ascii_fs_def example_fs_def node_without_latitude_id_def
          example_node_def initial_state_def ascii_string_def e_acute_def)
  show ?thesis using a b c d e by simp
qed

text \<open>
  Claim C6, as amended. Take a node file in which every record that is not valid has
  a path, an id and a text that the standard output can encode. A record of the file
  in which every value on the way to one of the four fields is a dictionary and the
  field is absent gives no vertex and adds one entry to the key-error list, and the
  other records of the file give the vertices they give without it: the run over the
  file ends normally, its vertices are those of the same file without the record,
  its key-error list is one longer and holds a message with the id of the record, and
  every valid record of the file has its vertex in the result.
\<close>

theorem missing_field_isolated:
  assumes "node_missing_field r"
    and "list_all (node_reportable fs fp) (pre @ r # post)"
  shows "\<exists>s s' k.
           process_node_file (with_file fs fp (JList (pre @ r # post))) fp orig rid st = Inr s \<and>
           process_node_file (with_file fs fp (JList (pre @ post))) fp orig rid st = Inr s' \<and>
           all_vertices s = all_vertices s' \<and>
           length (key_errors s) = length (key_errors s') + 1 \<and>
           NodeKeyError k (id_or_unknown r) fp \<in> set (key_errors s) \<and>
           (\<forall>n\<in>set (pre @ post). valid_node n \<longrightarrow>
              (\<exists>v. make_vertex rid n = Inr v \<and> v \<in> set (all_vertices s)))"
proof -
  obtain k where single: "node_vertices rid [r] = []"
    "node_message fp rid r = [NodeKeyError k (id_or_unknown r) fp]"
    using node_missing_field_single [OF assms(1), of rid fp] by blast
  have v: "node_vertices rid (pre @ r # post) = node_vertices rid (pre @ post)"
    using single(1) node_vertices_Cons [of rid r post] by (simp add: node_vertices_append)
  have m: "node_messages fp rid (pre @ r # post) =
           node_messages fp rid pre @ NodeKeyError k (id_or_unknown r) fp #
             node_messages fp rid post"
    using single(2) by (simp add: node_messages_def)
  have valid: "\<exists>v. make_vertex rid n = Inr v \<and> v \<in> set (node_vertices rid (pre @ post))"
    if n_in: "n \<in> set (pre @ post)" and n_valid: "valid_node n" for n
  proof -
    obtain w where "make_vertex rid n = Inr w" using n_valid make_vertex_Inr_iff by blast
    then show ?thesis using n_in node_vertices_set by blast
  qed
  let ?fa = "with_file fs fp (JList (pre @ r # post))"
  let ?fb = "with_file fs fp (JList (pre @ post))"
  have ra: "list_all (node_reportable ?fa fp) (pre @ r # post)"
    using assms(2) by simp
  have rb: "list_all (node_reportable ?fb fp) (pre @ post)"
    using assms(2) by simp
  have a: "process_node_file ?fa fp orig rid st =
      Inr (st\<lparr>node_files_processed := node_files_processed st @ [orig],
             all_vertices := all_vertices st @ node_vertices rid (pre @ r # post),
             key_errors := key_errors st @ node_messages fp rid (pre @ r # post)\<rparr>)"
    by (rule process_node_file_list [OF load_json_with_file ra])
  have b: "process_node_file ?fb fp orig rid st =
      Inr (st\<lparr>node_files_processed := node_files_processed st @ [orig],
             all_vertices := all_vertices st @ node_vertices rid (pre @ post),
             key_errors := key_errors st @ node_messages fp rid (pre @ post)\<rparr>)"
    by (rule process_node_file_list [OF load_json_with_file rb])
  show ?thesis
    unfolding a b using v m valid
    by (auto simp: node_messages_append)
qed

theorem missing_field_isolated_witness:
  "node_missing_field node_without_latitude \<and>
   list_all (node_reportable (example_fs []) (JStr ''nodes.json''))
     ([example_node ''n1''] @ node_without_latitude # [example_node ''n3'']) \<and>
   (\<exists>s s'.
      process_node_file
        (with_file (example_fs []) (JStr ''nodes.json'')
           (JList ([example_node ''n1''] @ node_without_latitude # [example_node ''n3''])))
        (JStr ''nodes.json'') (JStr ''nodes.json'') (JStr ''shard'') initial_state = Inr s \<and>
      process_node_file
        (with_file (example_fs []) (JStr ''nodes.json'')
           (JList ([example_node ''n1''] @ [example_node ''n3''])))
        (JStr ''nodes.json'') (JStr ''nodes.json'') (JStr ''shard'') initial_state = Inr s' \<and>
      all_vertices s = all_vertices s' \<and>
      length (key_errors s) = length (key_errors s') + 1)"
proof -
  have h1: "node_missing_field node_without_latitude"
    by (simp add: node_missing_field_def node_without_latitude_def)
  have h2: "list_all (node_reportable (example_fs []) (JStr ''nodes.json''))
     ([example_node ''n1''] @ node_without_latitude # [example_node ''n3''])"
    by (simp add: node_reportable_def example_fs_def)
  show ?thesis
    using h1 h2
      missing_field_isolated [OF h1 h2, of "JStr ''nodes.json''" "JStr ''shard''" initial_state]
    by blast
qed

subsection \<open>Link records with an unparseable length\<close>

text \<open>
  Claim C7, as stated, fails: a length that \<^verbatim>\<open>float\<close> cannot convert is recorded as
  a value error only when \<^verbatim>\<open>float\<close> raises \<^verbatim>\<open>ValueError\<close> and the record has an
  \<^verbatim>\<open>id\<close>. For the length \<^verbatim>\<open>null\<close>, \<^verbatim>\<open>float\<close> raises \<^verbatim>\<open>TypeError\<close>, which the handler
  of line 152 only prints: no list receives an entry. For a record with the length
  \<^verbatim>\<open>"abc"\<close> and no \<^verbatim>\<open>id\<close>, line 124 raises \<^verbatim>\<open>KeyError\<close> before \<^verbatim>\<open>float\<close> is called:
  the entry that is recorded is a key error about \<^verbatim>\<open>id\<close>.
\<close>

theorem unparseable_length_not_a_value_error:
  "\<not> parses whole_floats JNull \<and>
   process_link_file
     (example_fs [(''links.json'', Loaded (JList [example_link ''l1'' JNull]))])
     whole_floats (JStr ''links.json'') (JStr ''links.json'') (JStr ''shard'')
     (JStr ''mobility.actor.Link'') initial_state
   = Inr \<lparr>all_vertices = [], all_edges = [], node_files_processed = [],
          link_files_processed = [JStr ''links.json''], files_not_found = [],
          json_errors = [], key_errors = []\<rparr> \<and>
   field_at link_without_id [''data'', ''content'', ''length''] = Some (JStr ''abc'') \<and>
   \<not> parses whole_floats (JStr ''abc'') \<and>
   process_link_file
     (example_fs [(''links.json'', Loaded (JList [link_without_id]))])
     whole_floats (JStr ''links.json'') (JStr ''links.json'') (JStr ''shard'')
     (JStr ''mobility.actor.Link'') initial_state
   = Inr \<lparr>all_vertices = [], all_edges = [], node_files_processed = [],
          link_files_processed = [JStr ''links.json''], files_not_found = [],
          json_errors = [],
          key_errors = [LinkKeyError ''id'' (JStr ''unknown ID'') (JStr ''links.json'')]\<rparr>"
proof -
  have a: "\<not> parses whole_floats JNull" "\<not> parses whole_floats (JStr ''abc'')"
    by (simp_all add: parses_def py_float_def whole_floats_def digit_of_def)
  have b: "process_link_file
     (example_fs [(''links.json'', Loaded (JList [example_link ''l1'' JNull]))])
     whole_floats (JStr ''links.json'') (JStr ''links.json'') (JStr ''shard'')
     (JStr ''mobility.actor.Link'') initial_state
   = Inr \<lparr>all_vertices = [], all_edges = [], node_files_processed = [],
          link_files_processed = [JStr ''links.json''], files_not_found = [],
          json_errors = [], key_errors = []\<rparr>"
    by (simp add: process_link_file_def process_link_def add_edge_def link_fields_def
          resolve_endpoint_def py_index_def py_float_def py_print_def is_ValueError_def
          example_fs_def example_link_def initial_state_def)
  have c: "field_at link_without_id [''data'', ''content'', ''length''] = Some (JStr ''abc'')"
    by (simp add: link_without_id_def field_def)
  have d: "process_link_file
     (example_fs [(''links.json'', Loaded (JList [link_without_id]))])
     whole_floats (JStr ''links.json'') (JStr ''links.json'') (JStr ''shard'')
     (JStr ''mobility.actor.Link'') initial_state
   = Inr \<lparr>all_vertices = [], all_edges = [], node_files_processed = [],
          link_files_processed = [JStr ''links.json''], files_not_found = [],
          json_errors = [],
          key_errors = [LinkKeyError ''id'' (JStr ''unknown ID'') (JStr ''links.json'')]\<rparr>"
    by (simp add: process_link_file_def process_link_def add_edge_def link_fields_def
          resolve_endpoint_def py_index_def py_float_def py_print_def is_ValueError_def
          example_fs_def link_without_id_def initial_state_def)
  show ?thesis using a b c d by simp
qed

text \<open>
  Claim C7, as amended. Take a link file in which every record that is not valid has
  a path, an id, a text and a length that the standard output can encode. A record of
  the file that has an \<^verbatim>\<open>id\<close>, whose endpoint lookups raise nothing and whose
  \<^verbatim>\<open>data.content.length\<close> is a string that \<^verbatim>\<open>float\<close> rejects gives no edge and is
  recorded as a value error (the message holds the id of the record, the file and the
  rejected string), and the records after it are processed as usual: the run over the
  file ends normally, its edges are those of the same file without the record, the
  edge of every other record among them, and its error list is one longer.
\<close>

theorem unparseable_length_isolated:
  assumes "field_at r [''data'', ''content'', ''length''] = Some (JStr s)"
    and "float_of_str py s = None"
    and "field r ''id'' = Some i"
    and "resolve_endpoint py r ''from_node'' = Inr a"
    and "resolve_endpoint py r ''to_node'' = Inr b"
    and "list_all (link_reportable fs py fp) (pre @ r # post)"
  shows "\<exists>t t'.
           process_link_file (with_file fs fp (JList (pre @ r # post))) py fp orig rid ct st
             = Inr t \<and>
           process_link_file (with_file fs fp (JList (pre @ post))) py fp orig rid ct st
             = Inr t' \<and>
           all_edges t = all_edges t' \<and>
           LinkValueError i fp (JStr s) \<in> set (key_errors t) \<and>
           length (key_errors t) = length (key_errors t') + 1 \<and>
           (\<forall>l\<in>set (pre @ post). \<forall>e. link_edge py rid ct l = Some e \<longrightarrow>
              e \<in> set (all_edges t))"
proof -
  note single = unparseable_single [OF assms(1-5), of rid ct fp]
  have e: "link_edges py rid ct (pre @ r # post) = link_edges py rid ct (pre @ post)"
    using single link_edges_Cons [of py rid ct r post] by (simp add: link_edges_append)
  have m: "link_messages py fp (pre @ r # post) =
           link_messages py fp pre @ LinkValueError i fp (JStr s) # link_messages py fp post"
    using single by (simp add: link_messages_def)
  have in_edges: "e \<in> set (link_edges py rid ct (pre @ post))"
    if "l \<in> set (pre @ post)" and "link_edge py rid ct l = Some e" for l e
    using that link_edges_set by blast
  let ?fa = "with_file fs fp (JList (pre @ r # post))"
  let ?fb = "with_file fs fp (JList (pre @ post))"
  have ra: "list_all (link_reportable ?fa py fp) (pre @ r # post)"
    using assms(6) by simp
  have rb: "list_all (link_reportable ?fb py fp) (pre @ post)"
    using assms(6) by simp
  have a: "process_link_file ?fa py fp orig rid ct st =
      Inr (st\<lparr>link_files_processed := link_files_processed st @ [orig],
             all_edges := all_edges st @ link_edges py rid ct (pre @ r # post),
             key_errors := key_errors st @ link_messages py fp (pre @ r # post)\<rparr>)"
    by (rule process_link_file_list [OF load_json_with_file ra])
  have b: "process_link_file ?fb py fp orig rid ct st =
      Inr (st\<lparr>link_files_processed := link_files_processed st @ [orig],
             all_edges := all_edges st @ link_edges py rid ct (pre @ post),
             key_errors := key_errors st @ link_messages py fp (pre @ post)\<rparr>)"
    by (rule process_link_file_list [OF load_json_with_file rb])
  show ?thesis
    unfolding a b using e m in_edges
    by (auto simp: link_messages_append)
qed

theorem unparseable_length_isolated_witness:
  "field_at (example_link ''l2'' (JStr ''abc'')) [''data'', ''content'', ''length'']
     = Some (JStr ''abc'') \<and>
   float_of_str whole_floats ''abc'' = None \<and>
   field (example_link ''l2'' (JStr ''abc'')) ''id'' = Some (JStr ''l2'') \<and>
   resolve_endpoint whole_floats (example_link ''l2'' (JStr ''abc'')) ''from_node''
     = Inr (JStr ''a'') \<and>
   resolve_endpoint whole_floats (example_link ''l2'' (JStr ''abc'')) ''to_node''
     = Inr (JStr ''b'') \<and>
   list_all (link_reportable (example_fs []) whole_floats (JStr ''links.json''))
     ([example_link ''l1'' (JInt 5)] @ example_link ''l2'' (JStr ''abc'') #
      [example_link ''l3'' (JStr ''12'')]) \<and>
   (\<exists>t t'.
      process_link_file
        (with_file (example_fs []) (JStr ''links.json'')
           (JList ([example_link ''l1'' (JInt 5)] @ example_link ''l2'' (JStr ''abc'') #
                   [example_link ''l3'' (JStr ''12'')])))
        whole_floats (JStr ''links.json'') (JStr ''links.json'') (JStr ''shard'')
        (JStr ''mobility.actor.Link'') initial_state = Inr t \<and>
      process_link_file
        (with_file (example_fs []) (JStr ''links.json'')
           (JList ([example_link ''l1'' (JInt 5)] @ [example_link ''l3'' (JStr ''12'')])))
        whole_floats (JStr ''links.json'') (JStr ''links.json'') (JStr ''shard'')
        (JStr ''mobility.actor.Link'') initial_state = Inr t' \<and>
      all_edges t = all_edges t' \<and>
      LinkValueError (JStr ''l2'') (JStr ''links.json'') (JStr ''abc'') \<in> set (key_errors t) \<and>
      length (key_errors t) = length (key_errors t') + 1)"
proof -
  have h1: "field_at (example_link ''l2'' (JStr ''abc'')) [''data'', ''content'', ''length'']
     = Some (JStr ''abc'')"
    by (simp add: example_link_def field_def)
  have h2: "float_of_str whole_floats ''abc'' = None"
    by (simp add: whole_floats_def digit_of_def)
  have h3: "field (example_link ''l2'' (JStr ''abc'')) ''id'' = Some (JStr ''l2'')"
    by (simp add: example_link_def field_def)
  have h4: "resolve_endpoint whole_floats (example_link ''l2'' (JStr ''abc'')) ''from_node''
     = Inr (JStr ''a'')"
    by (simp add: resolve_endpoint_def example_link_def)
  have h5: "resolve_endpoint whole_floats (example_link ''l2'' (JStr ''abc'')) ''to_node''
     = Inr (JStr ''b'')"
    by (simp add: resolve_endpoint_def example_link_def)
  have h6: "list_all (link_reportable (example_fs []) whole_floats (JStr ''links.json''))
     ([example_link ''l1'' (JInt 5)] @ example_link ''l2'' (JStr ''abc'') #
      [example_link ''l3'' (JStr ''12'')])"
    by (simp add: link_reportable_def example_fs_def example_link_def field_def)
  show ?thesis
    using h1 h2 h3 h4 h5 h6
      unparseable_length_isolated [OF h1 h2 h3 h4 h5 h6, of "JStr ''links.json''"
        "JStr ''shard''" "JStr ''mobility.actor.Link''" initial_state]
    by blast
qed

subsection \<open>The prefix options\<close>

text \<open>
  Claim C8, as stated, fails when the one prefix that is supplied is the empty string:
  \<^verbatim>\<open>--docker-prefix ""\<close> alone stores the empty string, which the test of line 252
  takes for false, like the \<^verbatim>\<open>None\<close> of the option that was not given. The usage
  error is not raised and the conversion is called; with a manifest that has no
  entries it writes the output file.
\<close>

theorem empty_prefix_alone_runs:
  "docker_prefix (example_args (Some []) None) = Some [] \<and>
   host_prefix (example_args (Some []) None) = None \<and>
   main (example_fs [(''config.json'', Loaded (example_manifest []))]) whole_floats
     (example_args (Some []) None)
   = Called (Inr (Saved
       \<lparr>all_vertices = [], all_edges = [], node_files_processed = [],
        link_files_processed = [], files_not_found = [], json_errors = [], key_errors = []\<rparr>
       \<lparr>dir_created = False,
        file_written = Some \<lparr>nodes = [], edges = [], directed = False\<rparr>\<rparr>))"
  by (simp add: main_def supplied_def example_args_def example_fs_def example_manifest_def
        convert_simulation_data_def read_config_def run_pass_def py_in_def py_iter_def
        py_print_def initial_state_def finish_def no_data_due_to_errors_def save_output_def
        gps_map_data_def)

text \<open>
  Claim C8, as amended. When one of the two prefixes is supplied and not empty, and the
  other is absent or empty, the script leaves through the usage error, with exit
  status 2, whatever the file system and the standard output are: the conversion is
  not called and nothing is created or written.
\<close>

theorem one_prefix_is_usage_error:
  assumes "(docker_prefix args = Some d \<and> d \<noteq> [] \<and>
              (host_prefix args = None \<or> host_prefix args = Some [])) \<or>
           (host_prefix args = Some h \<and> h \<noteq> [] \<and>
              (docker_prefix args = None \<or> docker_prefix args = Some []))"
  shows "main fs py args = SysExit 2 \<and> (2::nat) \<noteq> 0 \<and>
         (\<forall>r. main fs py args \<noteq> Called r) \<and>
         script_effects (main fs py args) = \<lparr>dir_created = False, file_written = None\<rparr>"
proof -
  have "(supplied (docker_prefix args) \<and> \<not> supplied (host_prefix args)) \<or>
        (\<not> supplied (docker_prefix args) \<and> supplied (host_prefix args))"
    using assms by (auto simp: supplied_def)
  then have "main fs py args = SysExit 2"
    by (simp add: main_def)
  then show ?thesis
    by (simp add: script_effects_def no_effects_def)
qed

theorem one_prefix_is_usage_error_witness:
  "docker_prefix (example_args (Some ''/app/data/'') None) = Some ''/app/data/'' \<and>
   host_prefix (example_args (Some ''/app/data/'') None) = None \<and>
   main (example_fs [(''config.json'', Loaded (example_manifest []))]) whole_floats
     (example_args (Some ''/app/data/'') None) = SysExit 2 \<and>
   host_prefix (example_args (Some []) (Some ''/host/sim/'')) = Some ''/host/sim/'' \<and>
   docker_prefix (example_args (Some []) (Some ''/host/sim/'')) = Some [] \<and>
   main (example_fs [(''config.json'', Loaded (example_manifest []))]) whole_floats
     (example_args (Some []) (Some ''/host/sim/'')) = SysExit 2"
proof -
  have a: "docker_prefix (example_args (Some ''/app/data/'') None) = Some ''/app/data/''"
    "host_prefix (example_args (Some ''/app/data/'') None) = None"
    "host_prefix (example_args (Some []) (Some ''/host/sim/'')) = Some ''/host/sim/''"
    "docker_prefix (example_args (Some []) (Some ''/host/sim/'')) = Some []"
    by (simp_all add: example_args_def)
  have h1: "(docker_prefix (example_args (Some ''/app/data/'') None) = Some ''/app/data/'' \<and>
       ''/app/data/'' \<noteq> [] \<and>
       (host_prefix (example_args (Some ''/app/data/'') None) = None \<or>
        host_prefix (example_args (Some ''/app/data/'') None) = Some [])) \<or>
      (host_prefix (example_args (Some ''/app/data/'') None) = Some ''/host/sim/'' \<and>
       ''/host/sim/'' \<noteq> [] \<and>
       (docker_prefix (example_args (Some ''/app/data/'') None) = None \<or>
        docker_prefix (example_args (Some ''/app/data/'') None) = Some []))"
    using a by simp
  have h2: "(docker_prefix (example_args (Some []) (Some ''/host/sim/'')) = Some ''/app/data/'' \<and>
       ''/app/data/'' \<noteq> [] \<and>
       (host_prefix (example_args (Some []) (Some ''/host/sim/'')) = None \<or>
        host_prefix (example_args (Some []) (Some ''/host/sim/'')) = Some [])) \<or>
      (host_prefix (example_args (Some []) (Some ''/host/sim/'')) = Some ''/host/sim/'' \<and>
       ''/host/sim/'' \<noteq> [] \<and>
       (docker_prefix (example_args (Some []) (Some ''/host/sim/'')) = None \<or>
        docker_prefix (example_args (Some []) (Some ''/host/sim/'')) = Some []))"
    using a by simp
  show ?thesis
    using a
      one_prefix_is_usage_error [OF h1,
        of "example_fs [(''config.json'', Loaded (example_manifest []))]" whole_floats]
      one_prefix_is_usage_error [OF h2,
        of "example_fs [(''config.json'', Loaded (example_manifest []))]" whole_floats]
    by blast
qed

subsection \<open>Endpoint resolution\<close>

text \<open>
  Claim C9. A value at \<^verbatim>\<open>data.content.from_node\<close> or \<^verbatim>\<open>data.content.to_node\<close> that
  counts as true is the endpoint. When the key is absent there, or its value counts as
  false (the empty string, 0, null and false do), the endpoint is the value at
  \<^verbatim>\<open>dependencies.from_node.id\<close> or \<^verbatim>\<open>dependencies.to_node.id\<close>, so that a primary
  value such as the empty string or 0 is replaced without notice. A record whose
  lookups, \<^verbatim>\<open>id\<close> and \<^verbatim>\<open>length\<close> are in order gives an edge with the two resolved
  values exactly when both count as true, and is dropped otherwise: the lists are left
  as they were when the standard output can encode the id of the record and the path
  of the file, and if it cannot, the exception leaves the loop.
\<close>

theorem endpoint_fallback:
  "(field_at l [''data'', ''content'', key] = Some p \<and> truthy py p
      \<longrightarrow> resolve_endpoint py l key = Inr p)
   \<and> (field_at l [''data'', ''content''] = Some (JObj c) \<and>
       (case map_of c key of None \<Rightarrow> True | Some p' \<Rightarrow> \<not> truthy py p') \<and>
       field_at l [''dependencies'', key, ''id''] = Some q
      \<longrightarrow> resolve_endpoint py l key = Inr q)
   \<and> \<not> truthy py (JStr []) \<and> \<not> truthy py (JInt 0) \<and> \<not> truthy py JNull \<and> \<not> truthy py (JBool False)
   \<and> (resolve_endpoint py l ''from_node'' = Inr s \<and> resolve_endpoint py l ''to_node'' = Inr t \<and>
       field l ''id'' = Some i \<and> field_at l [''data'', ''content'', ''length''] = Some len \<and>
       py_float py len = Inr x
      \<longrightarrow> process_link fs py fp rid ct st l =
            (if truthy py s \<and> truthy py t
             then Inr (st\<lparr>all_edges := all_edges st @ [make_edge rid ct s t i x]\<rparr>)
             else if printable fs i \<and> printable fs fp then Inr st
             else Inl UnicodeEncodeError))"
proof (intro conjI impI)
  assume a: "field_at l [''data'', ''content'', key] = Some p \<and> truthy py p"
  then have "get_path l [(''data'', JObj []), (''content'', JObj []), (key, JNull)] = Inr p"
    using get_path_found [of l "[(''data'', JObj []), (''content'', JObj []), (key, JNull)]" p]
    by simp
  then show "resolve_endpoint py l key = Inr p"
    using a by (simp add: resolve_endpoint_def del: get_path.simps)
next
  assume a: "field_at l [''data'', ''content''] = Some (JObj c) \<and>
       (case map_of c key of None \<Rightarrow> True | Some p' \<Rightarrow> \<not> truthy py p') \<and>
       field_at l [''dependencies'', key, ''id''] = Some q"
  then obtain d where d: "field l ''data'' = Some d" "field d ''content'' = Some (JObj c)"
    by (auto split: option.splits)
  then obtain k1 k2 where k: "l = JObj k1" "map_of k1 ''data'' = Some d" "d = JObj k2"
    "map_of k2 ''content'' = Some (JObj c)"
    by (cases l; cases d) (auto simp: field_def)
  have p: "get_path l [(''data'', JObj []), (''content'', JObj []), (key, JNull)]
             = Inr (case map_of c key of None \<Rightarrow> JNull | Some v \<Rightarrow> v)"
    using k by simp
  have f: "\<not> truthy py (case map_of c key of None \<Rightarrow> JNull | Some v \<Rightarrow> v)"
    using a by (cases "map_of c key") simp_all
  have "get_path l [(''dependencies'', JObj []), (key, JObj []), (''id'', JNull)] = Inr q"
    using a get_path_found [of l "[(''dependencies'', JObj []), (key, JObj []), (''id'', JNull)]" q]
    by simp
  then show "resolve_endpoint py l key = Inr q"
    using p f by (simp add: resolve_endpoint_def del: get_path.simps)
next
  assume a: "resolve_endpoint py l ''from_node'' = Inr s \<and>
       resolve_endpoint py l ''to_node'' = Inr t \<and>
       field l ''id'' = Some i \<and> field_at l [''data'', ''content'', ''length''] = Some len \<and>
       py_float py len = Inr x"
  then have "field_at l [''id''] = Some i" by simp
  then have f: "link_fields py l = Inr (s, t, i, len)"
    using a by (simp only: link_fields_Inr_iff)
  from a obtain kvs where "l = JObj kvs" "map_of kvs ''id'' = Some i"
    by (cases l) (auto simp: field_def)
  then have g: "py_get l ''id'' (JStr ''unknown ID'') = Inr i" by simp
  show "process_link fs py fp rid ct st l =
            (if truthy py s \<and> truthy py t
             then Inr (st\<lparr>all_edges := all_edges st @ [make_edge rid ct s t i x]\<rparr>)
             else if printable fs i \<and> printable fs fp then Inr st
             else Inl UnicodeEncodeError)"
    using a f g
    by (auto simp add: process_link_def add_edge_def py_print_def is_ValueError_def)
qed simp_all

theorem endpoint_fallback_witness:
  "field_at (example_link ''l1'' (JInt 5)) [''data'', ''content'', ''from_node'']
     = Some (JStr ''a'') \<and> truthy whole_floats (JStr ''a'') \<and>
   resolve_endpoint whole_floats (example_link ''l1'' (JInt 5)) ''from_node'' = Inr (JStr ''a'') \<and>
   field_at link_with_falsy_endpoints [''data'', ''content'']
     = Some (JObj [(''from_node'', JStr []), (''to_node'', JInt 0), (''length'', JInt 3)]) \<and>
   map_of [(''from_node'', JStr []), (''to_node'', JInt 0), (''length'', JInt (3::int))]
     ''from_node'' = Some (JStr []) \<and>
   field_at link_with_falsy_endpoints [''dependencies'', ''from_node'', ''id'']
     = Some (JStr ''a'') \<and>
   resolve_endpoint whole_floats link_with_falsy_endpoints ''from_node'' = Inr (JStr ''a'') \<and>
   resolve_endpoint whole_floats link_with_falsy_endpoints ''to_node'' = Inr (JStr ''b'') \<and>
   field link_with_falsy_endpoints ''id'' = Some (JStr ''l5'') \<and>
   field_at link_with_falsy_endpoints [''data'', ''content'', ''length''] = Some (JInt 3) \<and>
   py_float whole_floats (JInt 3) = Inr 3 \<and>
   process_link (example_fs []) whole_floats (JStr ''links.json'') (JStr ''shard'')
       (JStr ''mobility.actor.Link'') initial_state link_with_falsy_endpoints
     = Inr (initial_state\<lparr>all_edges :=
         [make_edge (JStr ''shard'') (JStr ''mobility.actor.Link'') (JStr ''a'') (JStr ''b'')
            (JStr ''l5'') 3]\<rparr>) \<and>
   resolve_endpoint whole_floats link_without_endpoints ''from_node'' = Inr JNull \<and>
   resolve_endpoint whole_floats link_without_endpoints ''to_node'' = Inr JNull \<and>
   field link_without_endpoints ''id'' = Some (JStr ''l9'') \<and>
   field_at link_without_endpoints [''data'', ''content'', ''length''] = Some (JInt 7) \<and>
   py_float whole_floats (JInt 7) = Inr 7 \<and>
   printable (example_fs []) (JStr ''l9'') \<and>
   printable (example_fs []) (JStr ''links.json'') \<and>
   process_link (example_fs []) whole_floats (JStr ''links.json'') (JStr ''shard'')
       (JStr ''mobility.actor.Link'') initial_state link_without_endpoints
     = Inr initial_state"
proof -
  have h1: "field_at (example_link ''l1'' (JInt 5)) [''data'', ''content'', ''from_node'']
     = Some (JStr ''a'') \<and> truthy whole_floats (JStr ''a'')"
    by (simp add: example_link_def field_def)
  have h2: "field_at link_with_falsy_endpoints [''data'', ''content'']
     = Some (JObj [(''from_node'', JStr []), (''to_node'', JInt 0), (''length'', JInt 3)]) \<and>
     (case map_of [(''from_node'', JStr []), (''to_node'', JInt 0), (''length'', JInt (3::int))]
        ''from_node'' of None \<Rightarrow> True | Some p' \<Rightarrow> \<not> truthy whole_floats p') \<and>
     field_at link_with_falsy_endpoints [''dependencies'', ''from_node'', ''id'']
     = Some (JStr ''a'')"
    by (simp add: link_with_falsy_endpoints_def field_def)
  have h3: "field_at link_with_falsy_endpoints [''data'', ''content'']
     = Some (JObj [(''from_node'', JStr []), (''to_node'', JInt 0), (''length'', JInt 3)]) \<and>
     (case map_of [(''from_node'', JStr []), (''to_node'', JInt 0), (''length'', JInt (3::int))]
        ''to_node'' of None \<Rightarrow> True | Some p' \<Rightarrow> \<not> truthy whole_floats p') \<and>
     field_at link_with_falsy_endpoints [''dependencies'', ''to_node'', ''id'']
     = Some (JStr ''b'')"
    by (simp add: link_with_falsy_endpoints_def field_def)
  have h4: "field link_with_falsy_endpoints ''id'' = Some (JStr ''l5'') \<and>
     field_at link_with_falsy_endpoints [''data'', ''content'', ''length''] = Some (JInt 3) \<and>
     py_float whole_floats (JInt 3) = Inr 3"
    by (simp add: link_with_falsy_endpoints_def field_def py_float_def whole_floats_def)
  note t1 = endpoint_fallback [of "example_link ''l1'' (JInt 5)" "''from_node''" "JStr ''a''"
      whole_floats "[]" JNull JNull JNull JNull JNull 0 "example_fs []" JNull JNull JNull
      initial_state]
  note t2 = endpoint_fallback [of link_with_falsy_endpoints "''from_node''" JNull whole_floats
      "[(''from_node'', JStr []), (''to_node'', JInt 0), (''length'', JInt 3)]" "JStr ''a''"
      JNull JNull JNull JNull 0 "example_fs []" JNull JNull JNull initial_state]
  note t3 = endpoint_fallback [of link_with_falsy_endpoints "''to_node''" JNull whole_floats
      "[(''from_node'', JStr []), (''to_node'', JInt 0), (''length'', JInt 3)]" "JStr ''b''"
      "JStr ''a''" "JStr ''b''" "JStr ''l5''" "JInt 3" 3 "example_fs []" "JStr ''links.json''"
      "JStr ''shard''" "JStr ''mobility.actor.Link''" initial_state]
  have r1: "resolve_endpoint whole_floats (example_link ''l1'' (JInt 5)) ''from_node''
     = Inr (JStr ''a'')"
    using t1 h1 by blast
  have r2: "resolve_endpoint whole_floats link_with_falsy_endpoints ''from_node'' = Inr (JStr ''a'')"
    using t2 h2 by blast
  have r3: "resolve_endpoint whole_floats link_with_falsy_endpoints ''to_node'' = Inr (JStr ''b'')"
    using t3 h3 by blast
  have r4: "process_link (example_fs []) whole_floats (JStr ''links.json'') (JStr ''shard'')
       (JStr ''mobility.actor.Link'') initial_state link_with_falsy_endpoints
     = Inr (initial_state\<lparr>all_edges := all_edges initial_state @
         [make_edge (JStr ''shard'') (JStr ''mobility.actor.Link'') (JStr ''a'') (JStr ''b'')
            (JStr ''l5'') 3]\<rparr>)"
    using t3 r2 r3 h4 by simp
  have h5: "resolve_endpoint whole_floats link_without_endpoints ''from_node'' = Inr JNull \<and>
     resolve_endpoint whole_floats link_without_endpoints ''to_node'' = Inr JNull \<and>
     field link_without_endpoints ''id'' = Some (JStr ''l9'') \<and>
     field_at link_without_endpoints [''data'', ''content'', ''length''] = Some (JInt 7) \<and>
     py_float whole_floats (JInt 7) = Inr 7"
    by (simp add: resolve_endpoint_def link_without_endpoints_def field_def py_float_def
          whole_floats_def)
  have h6: "printable (example_fs []) (JStr ''l9'')"
    "printable (example_fs []) (JStr ''links.json'')"
    by (simp_all add: example_fs_def)
  note t4 = endpoint_fallback [of link_without_endpoints "''from_node''" JNull whole_floats
      "[]" JNull JNull JNull "JStr ''l9''" "JInt 7" 7 "example_fs []" "JStr ''links.json''"
      "JStr ''shard''" "JStr ''mobility.actor.Link''" initial_state]
  have r5: "process_link (example_fs []) whole_floats (JStr ''links.json'') (JStr ''shard'')
       (JStr ''mobility.actor.Link'') initial_state link_without_endpoints
     = Inr initial_state"
    using t4 h5 h6 by simp
  show ?thesis
    using h1 h2 h4 h5 h6 r1 r2 r3 r4 r5 by (simp add: initial_state_def)
qed

subsection \<open>Coordinates\<close>

text \<open>
  Claim C10. The latitude and longitude of a vertex are the values found at
  \<^verbatim>\<open>data.content\<close> of its record, unchanged. For a record with an \<^verbatim>\<open>id\<close>, a
  \<^verbatim>\<open>typeActor\<close> and a dictionary at \<^verbatim>\<open>data.content\<close>, whatever JSON values are stored
  under the two keys go into the vertex that is appended, and the record gives no
  vertex exactly when one of the two keys is absent.
\<close>

theorem coordinates_verbatim:
  "(make_vertex rid n = Inr v \<longrightarrow>
      field_at n [''data'', ''content'', ''latitude''] = Some (latitude v) \<and>
      field_at n [''data'', ''content'', ''longitude''] = Some (longitude v))
   \<and> (field n ''id'' = Some i \<and> field n ''typeActor'' = Some t \<and>
       field_at n [''data'', ''content''] = Some (JObj c) \<longrightarrow>
        (\<forall>la lo. map_of c ''latitude'' = Some la \<and> map_of c ''longitude'' = Some lo \<longrightarrow>
           process_node fs fp rid st n =
             Inr (st\<lparr>all_vertices := all_vertices st @
                    [\<lparr>vertex_id = i, vertex_classType = t, vertex_resourceId = rid,
                      latitude = la, longitude = lo\<rparr>]\<rparr>)) \<and>
        ((map_of c ''latitude'' = None \<or> map_of c ''longitude'' = None) \<longleftrightarrow>
           (\<exists>e. make_vertex rid n = Inl e)))"
proof (intro conjI impI allI)
  assume "make_vertex rid n = Inr v"
  then have "index_path n [''data'', ''content'', ''latitude''] = Inr (latitude v)"
    "index_path n [''data'', ''content'', ''longitude''] = Inr (longitude v)"
    by (auto simp add: make_vertex_def bind_exn_eq_Inr simp del: index_path.simps)
  then show "field_at n [''data'', ''content'', ''latitude''] = Some (latitude v)"
    "field_at n [''data'', ''content'', ''longitude''] = Some (longitude v)"
    by (simp_all only: index_path_Inr_iff)
next
  assume a: "field n ''id'' = Some i \<and> field n ''typeActor'' = Some t \<and>
       field_at n [''data'', ''content''] = Some (JObj c)"
  then have i: "py_index n ''id'' = Inr i" and t: "py_index n ''typeActor'' = Inr t"
    by (simp_all add: py_index_Inr_iff)
  from a obtain d where d: "py_index n ''data'' = Inr d" "py_index d ''content'' = Inr (JObj c)"
    by (auto simp: py_index_Inr_iff split: option.splits)
  {
    fix la lo
    assume "map_of c ''latitude'' = Some la \<and> map_of c ''longitude'' = Some lo"
    then have "make_vertex rid n =
       Inr \<lparr>vertex_id = i, vertex_classType = t, vertex_resourceId = rid,
            latitude = la, longitude = lo\<rparr>"
      using i t d by (simp add: make_vertex_def py_index_def)
    then show "process_node fs fp rid st n =
             Inr (st\<lparr>all_vertices := all_vertices st @
                    [\<lparr>vertex_id = i, vertex_classType = t, vertex_resourceId = rid,
                      latitude = la, longitude = lo\<rparr>]\<rparr>)"
      by (simp add: process_node_def)
  }
  show "(map_of c ''latitude'' = None \<or> map_of c ''longitude'' = None) \<longleftrightarrow>
           (\<exists>e. make_vertex rid n = Inl e)"
    using i t d
    by (cases "map_of c ''latitude''"; cases "map_of c ''longitude''")
       (simp_all add: make_vertex_def py_index_def)
qed

theorem coordinates_verbatim_witness:
  "make_vertex (JStr ''shard'')
     (JObj [(''id'', JStr ''n1''), (''typeActor'', JStr ''Node''),
            (''data'', JObj [(''content'',
               JObj [(''latitude'', JNull), (''longitude'', JStr ''north'')])])])
     = Inr \<lparr>vertex_id = JStr ''n1'', vertex_classType = JStr ''Node'',
            vertex_resourceId = JStr ''shard'', latitude = JNull,
            longitude = JStr ''north''\<rparr> \<and>
   field_at
     (JObj [(''id'', JStr ''n1''), (''typeActor'', JStr ''Node''),
            (''data'', JObj [(''content'',
               JObj [(''latitude'', JNull), (''longitude'', JStr ''north'')])])])
     [''data'', ''content'', ''latitude''] = Some (JNull :: int json) \<and>
   process_node (example_fs []) (JStr ''nodes.json'') (JStr ''shard'') initial_state
     (JObj [(''id'', JStr ''n1''), (''typeActor'', JStr ''Node''),
            (''data'', JObj [(''content'',
               JObj [(''latitude'', JNull), (''longitude'', JStr ''north'')])])])
     = Inr (initial_state\<lparr>all_vertices :=
              [\<lparr>vertex_id = JStr ''n1'', vertex_classType = JStr ''Node'',
                vertex_resourceId = JStr ''shard'', latitude = JNull,
                longitude = JStr ''north'' :: int json\<rparr>]\<rparr>)"
  using coordinates_verbatim [of "JStr ''shard''"
      "JObj [(''id'', JStr ''n1''), (''typeActor'', JStr ''Node''),
            (''data'', JObj [(''content'',
               JObj [(''latitude'', JNull), (''longitude'', JStr ''north'')])])]"
      "\<lparr>vertex_id = JStr ''n1'', vertex_classType = JStr ''Node'',
            vertex_resourceId = JStr ''shard'', latitude = JNull,
            longitude = JStr ''north''\<rparr>"
      "JStr ''n1''" "JStr ''Node''"
      "[(''latitude'', JNull), (''longitude'', JStr ''north'')]"
      "example_fs []" "JStr ''nodes.json''" initial_state]
  by (simp add: make_vertex_def py_index_def field_def initial_state_def)
end
